theory Spec2Isabelle
  imports Complex_Main "HOL-Library.Sublist"
begin

section \<open>Python values\<close>

text \<open>
  The building specification, the values of conditions and actions and the wire
  representation of a schema are plain Python data: \<open>None\<close>, booleans, unbounded
  integers, floats, strings, lists and dictionaries with string keys. A finite float is
  kept as the rational number it denotes; the two infinities are values of their own. A
  NaN carries the identity of its object: \<open>NaN i\<close> and \<open>NaN j\<close> are the same object exactly
  when \<open>i = j\<close> (\<open>json.load\<close> returns one and the same NaN object for every NaN it reads,
  \<open>float('nan')\<close> makes a new one). For every other value identity adds nothing to
  equality, since an object without a NaN in it equals itself. A dictionary is an
  association list whose keys are distinct. Text is a list of 8-bit characters, read as
  the code points 0 to 255 (Latin-1).
\<close>

datatype py_error =
  TypeError | ValueError | OverflowError | KeyError | AttributeError | IllTyped

datatype pyfloat = Finite rat | PosInf | NegInf | NaN nat

datatype pyval =
    PNone
  | PBool bool
  | PInt int
  | PFloat pyfloat
  | PStr string
  | PList "pyval list"
  | PDict "(string \<times> pyval) list"

subsection \<open>Rounding to a double\<close>

text \<open>
  \<open>int.bit_length\<close>, the position of the leading binary digit of a positive rational,
  rounding to the nearest integer with ties to even, and rounding of a rational to the
  nearest IEEE binary64 value (53 significant bits, least exponent \<open>-1074\<close>, overflow at
  \<open>2 ^ 1024\<close>).
\<close>

function bit_length :: "int \<Rightarrow> int" where
  "bit_length n = (if n \<le> 0 then 0 else 1 + bit_length (n div 2))"
  by pat_completeness auto
termination
  by (relation "measure nat") auto

declare bit_length.simps [simp del]

definition floor_log2 :: "rat \<Rightarrow> int" where
  "floor_log2 x =
     (let (n, d) = quotient_of x;
          e = bit_length n - bit_length d
      in if 2 powi e \<le> x then e else e - 1)"

definition round_half_even :: "rat \<Rightarrow> int" where
  "round_half_even x =
     (let f = \<lfloor>x\<rfloor>; d = x - of_int f
      in if d < 1 / 2 then f
         else if 1 / 2 < d then f + 1
         else if even f then f else f + 1)"

definition round_double :: "rat \<Rightarrow> pyfloat" where
  "round_double x =
     (if x = 0 then Finite 0
      else
        let ulp = 2 powi (max (floor_log2 \<bar>x\<bar> - 52) (- 1074));
            r = of_int (round_half_even (\<bar>x\<bar> / ulp)) * ulp
        in if 2 ^ 1024 \<le> r then (if 0 < x then PosInf else NegInf)
           else Finite (sgn x * r))"

subsection \<open>The built-in \<open>float\<close>\<close>

text \<open>
  Classes of characters are ranges of code points. \<open>str.lower\<close> moves the upper-case
  letters (\<open>A\<close> to \<open>Z\<close>, and 0xC0 to 0xDE but for the multiplication sign 0xD7) up by 32.

  \<open>float(s)\<close> on a string strips whitespace (codes 9 to 13, 32, 0x85 and 0xA0), reads an
  optional sign and then \<open>inf\<close>, \<open>infinity\<close>, \<open>nan\<close> (in any case) or a decimal literal: digits
  that single underscores may separate, an optional fraction, an optional exponent.
  Anything else is a \<open>ValueError\<close>. A literal that is too large becomes an infinity. The
  NaN that \<open>float\<close> builds from a string is a new object; the source only compares it, so
  its index plays no part.
\<close>

definition in_ranges :: "(nat \<times> nat) list \<Rightarrow> char \<Rightarrow> bool" where
  "in_ranges rs c = list_ex (\<lambda>(lo, hi). lo \<le> of_char c \<and> (of_char c :: nat) \<le> hi) rs"

definition is_digit :: "char \<Rightarrow> bool" where
  "is_digit c = in_ranges [(48, 57)] c"

definition is_upper :: "char \<Rightarrow> bool" where
  "is_upper c = in_ranges [(65, 90), (0xC0, 0xD6), (0xD8, 0xDE)] c"

definition lower_char :: "char \<Rightarrow> char" where
  "lower_char c = (if is_upper c then char_of ((of_char c :: nat) + 32) else c)"

definition lower :: "string \<Rightarrow> string" where
  "lower s = map lower_char s"

definition float_space :: "char \<Rightarrow> bool" where
  "float_space c = in_ranges [(9, 13), (32, 32), (0x85, 0x85), (0xA0, 0xA0)] c"

definition digit_value :: "char \<Rightarrow> int" where
  "digit_value c = int (of_char c) - 48"

definition int_of_digits :: "string \<Rightarrow> int" where
  "int_of_digits ds = foldl (\<lambda>acc c. 10 * acc + digit_value c) 0 ds"

fun digit_run :: "string \<Rightarrow> string \<times> string" where
  "digit_run [] = ([], [])"
| "digit_run [c] = (if is_digit c then ([c], []) else ([], [c]))"
| "digit_run (c # d # cs) =
     (if is_digit c then (let (ds, r) = digit_run (d # cs) in (c # ds, r))
      else if c = CHR ''_'' \<and> is_digit d then (let (ds, r) = digit_run cs in (d # ds, r))
      else ([], c # d # cs))"

definition digitpart :: "string \<Rightarrow> (string \<times> string) option" where
  "digitpart s =
     (case s of
        [] \<Rightarrow> None
      | c # cs \<Rightarrow> if is_digit c then (let (ds, r) = digit_run cs in Some (c # ds, r)) else None)"

definition read_sign :: "string \<Rightarrow> rat \<times> string" where
  "read_sign s =
     (case s of
        c # cs \<Rightarrow> if c = CHR ''-'' then (- 1, cs) else if c = CHR ''+'' then (1, cs) else (1, s)
      | [] \<Rightarrow> (1, s))"

definition read_exponent :: "string \<Rightarrow> int option" where
  "read_exponent s =
     (case s of
        [] \<Rightarrow> Some 0
      | c # cs \<Rightarrow>
          if c = CHR ''e'' \<or> c = CHR ''E'' then
            (let (sg, r) = read_sign cs
             in case digitpart r of
                  Some (ds, []) \<Rightarrow> Some ((if sg < 0 then - 1 else 1) * int_of_digits ds)
                | _ \<Rightarrow> None)
          else None)"

definition decimal_value :: "string \<Rightarrow> string \<Rightarrow> string \<Rightarrow> rat option" where
  "decimal_value ip fp r =
     (case read_exponent r of
        None \<Rightarrow> None
      | Some e \<Rightarrow> Some (of_int (int_of_digits (ip @ fp)) * 10 powi (e - int (length fp))))"

definition read_number :: "string \<Rightarrow> rat option" where
  "read_number s =
     (case digitpart s of
        Some (ip, r) \<Rightarrow>
          (case r of
             c # r' \<Rightarrow>
               if c = CHR ''.'' then
                 (case digitpart r' of
                    Some (fp, r'') \<Rightarrow> decimal_value ip fp r''
                  | None \<Rightarrow> decimal_value ip [] r')
               else decimal_value ip [] r
           | [] \<Rightarrow> decimal_value ip [] r)
      | None \<Rightarrow>
          (case s of
             c # r' \<Rightarrow>
               if c = CHR ''.'' then
                 (case digitpart r' of
                    Some (fp, r'') \<Rightarrow> decimal_value [] fp r''
                  | None \<Rightarrow> None)
               else None
           | [] \<Rightarrow> None))"

definition strip_with :: "(char \<Rightarrow> bool) \<Rightarrow> string \<Rightarrow> string" where
  "strip_with sp s = rev (dropWhile sp (rev (dropWhile sp s)))"

definition float_of_string :: "string \<Rightarrow> pyfloat option" where
  "float_of_string s =
     (let (sg, body) = read_sign (strip_with float_space s); w = lower body
      in if w = ''inf'' \<or> w = ''infinity'' then Some (if sg < 0 then NegInf else PosInf)
         else if w = ''nan'' then Some (NaN 0)
         else (case read_number body of
                 None \<Rightarrow> None
               | Some q \<Rightarrow> Some (round_double (sg * q))))"

text \<open>
  \<open>float(x)\<close>: a boolean is 0 or 1; an integer is rounded, and is an \<open>OverflowError\<close>
  when it would round beyond the largest double (from \<open>2 ^ 1024 - 2 ^ 970\<close> on, in
  absolute value); a float is itself; a string is parsed; \<open>None\<close>, lists and
  dictionaries are a \<open>TypeError\<close>.
\<close>

fun py_float :: "pyval \<Rightarrow> py_error + pyfloat" where
  "py_float PNone = Inl TypeError"
| "py_float (PBool b) = Inr (Finite (if b then 1 else 0))"
| "py_float (PInt i) =
     (if 2 ^ 1024 - 2 ^ 970 \<le> \<bar>i\<bar> then Inl OverflowError else Inr (round_double (of_int i)))"
| "py_float (PFloat f) = Inr f"
| "py_float (PStr s) = (case float_of_string s of None \<Rightarrow> Inl ValueError | Some f \<Rightarrow> Inr f)"
| "py_float (PList xs) = Inl TypeError"
| "py_float (PDict d) = Inl TypeError"

subsection \<open>Comparison and membership\<close>

fun float_lt :: "pyfloat \<Rightarrow> pyfloat \<Rightarrow> bool" where
  "float_lt (NaN i) b = False"
| "float_lt a (NaN i) = False"
| "float_lt (Finite a) (Finite b) = (a < b)"
| "float_lt NegInf b = (b \<noteq> NegInf)"
| "float_lt a PosInf = (a \<noteq> PosInf)"
| "float_lt a b = False"

fun is_nan :: "pyfloat \<Rightarrow> bool" where
  "is_nan (NaN i) = True"
| "is_nan a = False"

definition num_eq :: "pyfloat \<Rightarrow> pyfloat \<Rightarrow> bool" where
  "num_eq a b = (\<not> is_nan a \<and> a = b)"

definition float_le :: "pyfloat \<Rightarrow> pyfloat \<Rightarrow> bool" where
  "float_le a b = (float_lt a b \<or> num_eq a b)"

text \<open>The exact numeric value of a boolean, an integer or a float, as \<open>==\<close> compares them.\<close>

fun num_of :: "pyval \<Rightarrow> pyfloat option" where
  "num_of (PBool b) = Some (Finite (if b then 1 else 0))"
| "num_of (PInt i) = Some (Finite (of_int i))"
| "num_of (PFloat f) = Some f"
| "num_of v = None"

text \<open>
  \<open>x is y\<close>, where it says more than \<open>x == y\<close>: both are the same NaN object.
\<close>

fun same_nan :: "pyval \<Rightarrow> pyval \<Rightarrow> bool" where
  "same_nan (PFloat (NaN i)) (PFloat (NaN j)) = (i = j)"
| "same_nan x y = False"

text \<open>
  \<open>x == y\<close>: numbers by numeric value (so \<open>1 == 1.0\<close> and \<open>True == 1\<close>, and a NaN equals
  nothing, not even itself), strings and \<open>None\<close> by value, lists elementwise, dictionaries
  by equal size and equal values under every key; values of different kinds are unequal.
  Lists and dictionaries compare their members by \<open>x is y or x == y\<close>.
\<close>

fun py_eq :: "pyval \<Rightarrow> pyval \<Rightarrow> bool" where
  "py_eq PNone y = (y = PNone)"
| "py_eq (PStr s) y = (y = PStr s)"
| "py_eq (PList xs) (PList ys) = list_all2 (\<lambda>x y. same_nan x y \<or> py_eq x y) xs ys"
| "py_eq (PList xs) y = False"
| "py_eq (PDict a) (PDict b) =
     (length a = length b \<and>
      list_all (\<lambda>(k, v). case map_of b k of
                           None \<Rightarrow> False
                         | Some w \<Rightarrow> same_nan v w \<or> py_eq v w) a)"
| "py_eq (PDict a) y = False"
| "py_eq x y = (case (num_of x, num_of y) of (Some a, Some b) \<Rightarrow> num_eq a b | _ \<Rightarrow> False)"

definition identical_or_equal :: "pyval \<Rightarrow> pyval \<Rightarrow> bool" where
  "identical_or_equal x y = (same_nan x y \<or> py_eq x y)"

text \<open>
  \<open>x in c\<close>: in a string, \<open>x\<close> must be a string and the test is for a contiguous
  occurrence; in a list, \<open>any(x is e or x == e for e in c)\<close>; in a dictionary, \<open>x\<close> must
  be hashable and the test is for a key; every other container is a \<open>TypeError\<close>.
\<close>

fun py_in :: "pyval \<Rightarrow> pyval \<Rightarrow> py_error + bool" where
  "py_in x (PStr s) = (case x of PStr t \<Rightarrow> Inr (sublist t s) | _ \<Rightarrow> Inl TypeError)"
| "py_in x (PList ys) = Inr (list_ex (identical_or_equal x) ys)"
| "py_in x (PDict d) =
     (case x of
        PList xs \<Rightarrow> Inl TypeError
      | PDict e \<Rightarrow> Inl TypeError
      | PStr k \<Rightarrow> Inr (k \<in> set (map fst d))
      | _ \<Rightarrow> Inr False)"
| "py_in x c = Inl TypeError"

section \<open>Schema\<close>

text \<open>
  The entities of \<open>schema.py\<close>. Field names carry a prefix where two dataclasses use
  the same name (\<open>operator\<close>, \<open>value\<close>, \<open>conditions\<close>, \<open>metadata\<close>). A condition tree is
  either a \<open>Condition\<close> or a \<open>ConditionGroup\<close> over a list of trees. Throughout, a method
  \<open>_name\<close> of the source is the function \<open>name\<close>.
\<close>

datatype ComparisonOperator =
    EQUALS | NOT_EQUALS | GREATER_THAN | LESS_THAN
  | GREATER_THAN_OR_EQUAL | LESS_THAN_OR_EQUAL | IN | NOT_IN

datatype LogicalOperator = AND | OR | NOT

record condition =
  field :: string
  operator :: ComparisonOperator
  cond_value :: pyval
  unit :: "string option"

datatype condition_node =
    Condition condition
  | ConditionGroup LogicalOperator "condition_node list"

record action =
  action_type :: string
  target :: string
  action_value :: pyval
  parameters :: "(string \<times> pyval) list"

record rule =
  rule_id :: string
  name :: string
  description :: string
  category :: string
  conditions :: condition_node
  actions :: "action list"
  priority :: int
  rule_metadata :: "(string \<times> pyval) list"

record rule_schema =
  version :: string
  rules :: "rule list"
  schema_metadata :: "(string \<times> pyval) list"

section \<open>Engine\<close>

type_synonym building_spec = "string \<rightharpoonup> pyval"

text \<open>
  \<open>BaselineEngine._evaluate_condition\<close>. \<open>building_spec.get\<close> gives \<open>None\<close> for a missing
  field and for a field stored as \<open>None\<close>; both return \<open>False\<close>. The comparisons run
  inside \<open>try\<close>, whose handler turns a \<open>ValueError\<close> or a \<open>TypeError\<close> into \<open>False\<close> and
  lets every other exception through. The final \<open>else\<close> of the source is for an operator
  outside the enumeration, which the type of \<open>operator\<close> excludes.
\<close>

definition float_compare ::
  "(pyfloat \<Rightarrow> pyfloat \<Rightarrow> bool) \<Rightarrow> pyval \<Rightarrow> pyval \<Rightarrow> py_error + bool" where
  "float_compare rel x y =
     (case py_float x of
        Inl e \<Rightarrow> Inl e
      | Inr a \<Rightarrow> (case py_float y of Inl e \<Rightarrow> Inl e | Inr b \<Rightarrow> Inr (rel a b)))"

definition py_not :: "py_error + bool \<Rightarrow> py_error + bool" where
  "py_not r = (case r of Inl e \<Rightarrow> Inl e | Inr b \<Rightarrow> Inr (\<not> b))"

definition except_value_type_error :: "py_error + bool \<Rightarrow> py_error + bool" where
  "except_value_type_error r =
     (case r of
        Inl ValueError \<Rightarrow> Inr False
      | Inl TypeError \<Rightarrow> Inr False
      | _ \<Rightarrow> r)"

definition evaluate_condition :: "condition \<Rightarrow> building_spec \<Rightarrow> py_error + bool" where
  "evaluate_condition c building_spec =
     (case building_spec (field c) of
        None \<Rightarrow> Inr False
      | Some PNone \<Rightarrow> Inr False
      | Some field_value \<Rightarrow>
          (let target_value = cond_value c
           in except_value_type_error
                (case operator c of
                   EQUALS \<Rightarrow> Inr (py_eq field_value target_value)
                 | NOT_EQUALS \<Rightarrow> Inr (\<not> py_eq field_value target_value)
                 | GREATER_THAN \<Rightarrow> float_compare (\<lambda>a b. float_lt b a) field_value target_value
                 | LESS_THAN \<Rightarrow> float_compare float_lt field_value target_value
                 | GREATER_THAN_OR_EQUAL \<Rightarrow>
                     float_compare (\<lambda>a b. float_le b a) field_value target_value
                 | LESS_THAN_OR_EQUAL \<Rightarrow> float_compare float_le field_value target_value
                 | IN \<Rightarrow> py_in field_value target_value
                 | NOT_IN \<Rightarrow> py_not (py_in field_value target_value))))"

text \<open>
  \<open>_evaluate_condition_group\<close> first evaluates every child, in order, into the list
  \<open>results\<close> (so an exception of any child leaves the loop), then combines the results.
\<close>

function evaluate_condition_group ::
    "LogicalOperator \<Rightarrow> condition_node list \<Rightarrow> building_spec \<Rightarrow> py_error + bool"
  and group_results :: "condition_node list \<Rightarrow> building_spec \<Rightarrow> py_error + bool list"
where
  "evaluate_condition_group lop cs building_spec =
     (case group_results cs building_spec of
        Inl e \<Rightarrow> Inl e
      | Inr results \<Rightarrow>
          Inr (case lop of
                 AND \<Rightarrow> list_all (\<lambda>b. b) results
               | OR \<Rightarrow> list_ex (\<lambda>b. b) results
               | NOT \<Rightarrow> \<not> list_ex (\<lambda>b. b) results))"
| "group_results [] building_spec = Inr []"
| "group_results (Condition c # cs) building_spec =
     (case evaluate_condition c building_spec of
        Inl e \<Rightarrow> Inl e
      | Inr b \<Rightarrow>
          (case group_results cs building_spec of Inl e \<Rightarrow> Inl e | Inr bs \<Rightarrow> Inr (b # bs)))"
| "group_results (ConditionGroup lop' cs' # cs) building_spec =
     (case evaluate_condition_group lop' cs' building_spec of
        Inl e \<Rightarrow> Inl e
      | Inr b \<Rightarrow>
          (case group_results cs building_spec of Inl e \<Rightarrow> Inl e | Inr bs \<Rightarrow> Inr (b # bs)))"
  by pat_completeness auto
termination
  by (relation "measure (\<lambda>x. case x of
         Inl (lop, cs, sp) \<Rightarrow> 2 * size_list size cs + 1
       | Inr (cs, sp) \<Rightarrow> 2 * size_list size cs)") auto

definition evaluate_rule :: "rule \<Rightarrow> building_spec \<Rightarrow> py_error + bool" where
  "evaluate_rule r building_spec =
     (case conditions r of
        Condition c \<Rightarrow> evaluate_condition c building_spec
      | ConditionGroup lop cs \<Rightarrow> evaluate_condition_group lop cs building_spec)"

text \<open>
  \<open>_apply_actions\<close> writes one entry of \<open>baseline_properties\<close> per action, in list order.
\<close>

definition apply_action :: "action \<Rightarrow> (string \<rightharpoonup> pyval) \<Rightarrow> (string \<rightharpoonup> pyval)" where
  "apply_action a baseline_properties =
     (if action_type a = ''set_value'' then
        baseline_properties(target a \<mapsto> action_value a)
      else if action_type a = ''apply_method'' then
        baseline_properties(target a \<mapsto>
          PDict [(''method'', action_value a), (''parameters'', PDict (parameters a))])
      else if action_type a = ''reference_table'' then
        baseline_properties(target a \<mapsto>
          PDict [(''table'', action_value a), (''parameters'', PDict (parameters a))])
      else if action_type a = ''evaluate'' then
        baseline_properties(target a \<mapsto> action_value a)
      else
        (let props = (if baseline_properties (target a) = None
                      then baseline_properties(target a \<mapsto> PDict [])
                      else baseline_properties)
         in props(target a \<mapsto>
              PDict [(''action_type'', PStr (action_type a)), (''value'', action_value a),
                     (''parameters'', PDict (parameters a))])))"

fun apply_actions :: "action list \<Rightarrow> (string \<rightharpoonup> pyval) \<Rightarrow> (string \<rightharpoonup> pyval)" where
  "apply_actions [] baseline_properties = baseline_properties"
| "apply_actions (a # as) baseline_properties =
     apply_actions as (apply_action a baseline_properties)"

record matched_entry =
  m_rule_id :: string
  m_rule_name :: string
  m_category :: string

record log_entry =
  l_rule_id :: string
  status :: string
  message :: string

record baseline =
  input :: building_spec
  matched_rules :: "matched_entry list"
  baseline_properties :: "string \<rightharpoonup> pyval"
  evaluation_log :: "log_entry list"

text \<open>
  \<open>sorted(self.rules, key=lambda r: r.priority, reverse=True)\<close>: Python's sort is stable,
  also with \<open>reverse=True\<close>, so this is the stable sort by descending priority.
\<close>

definition sorted_rules :: "rule list \<Rightarrow> rule list" where
  "sorted_rules rs = sort_key (\<lambda>r. - priority r) rs"

fun evaluate_loop :: "rule list \<Rightarrow> building_spec \<Rightarrow> baseline \<Rightarrow> py_error + baseline" where
  "evaluate_loop [] building_spec b = Inr b"
| "evaluate_loop (r # rs) building_spec b =
     (case evaluate_rule r building_spec of
        Inl e \<Rightarrow> Inl e
      | Inr True \<Rightarrow>
          evaluate_loop rs building_spec
            (b\<lparr>matched_rules := matched_rules b @
                  [\<lparr>m_rule_id = rule_id r, m_rule_name = name r, m_category = category r\<rparr>],
               baseline_properties := apply_actions (actions r) (baseline_properties b),
               evaluation_log := evaluation_log b @
                  [\<lparr>l_rule_id = rule_id r, status = ''matched'',
                    message = ''Rule '' @ [CHR 0x27] @ name r @ [CHR 0x27] @ '' matched and applied''\<rparr>]\<rparr>)
      | Inr False \<Rightarrow>
          evaluate_loop rs building_spec
            (b\<lparr>evaluation_log := evaluation_log b @
                  [\<lparr>l_rule_id = rule_id r, status = ''not_matched'',
                    message = ''Rule '' @ [CHR 0x27] @ name r @ [CHR 0x27] @ '' conditions not met''\<rparr>]\<rparr>))"

definition evaluate :: "rule list \<Rightarrow> building_spec \<Rightarrow> py_error + baseline" where
  "evaluate rs building_spec =
     evaluate_loop (sorted_rules rs) building_spec
       \<lparr>input = building_spec, matched_rules = [], baseline_properties = Map.empty,
        evaluation_log = []\<rparr>"

section \<open>Single conditions\<close>

text \<open>
  C10. A field that the building specification holds with the value \<open>None\<close> makes every
  condition on it false, whatever the operator, exactly as if the field were absent.
\<close>

theorem none_valued_field_never_matches:
  "building_spec (field c) = Some PNone \<Longrightarrow>
     evaluate_condition c building_spec = Inr False \<and>
     evaluate_condition c (building_spec(field c := None)) = Inr False"
  by (simp add: evaluate_condition_def)

theorem none_valued_field_never_matches_witness:
  "evaluate_condition
     \<lparr>field = ''climate_zone'', operator = NOT_EQUALS, cond_value = PStr ''4a'', unit = None\<rparr>
     [''climate_zone'' \<mapsto> PNone] = Inr False"
  using none_valued_field_never_matches
    [of "[''climate_zone'' \<mapsto> PNone]"
        "\<lparr>field = ''climate_zone'', operator = NOT_EQUALS, cond_value = PStr ''4a'',
          unit = None\<rparr>"]
  by simp

text \<open>
  C3. Evaluation of a single condition is meant never to raise. An integer too large for a
  double makes \<open>float\<close> raise \<open>OverflowError\<close>, which the handler of
  \<open>_evaluate_condition\<close> does not catch: with \<open>building_area\<close> equal to \<open>10 ^ 400\<close> the
  comparison \<open>building_area > 10000\<close> raises instead of returning a boolean.
\<close>

theorem evaluate_condition_overflow_escapes:
  "evaluate_condition
     \<lparr>field = ''building_area'', operator = GREATER_THAN, cond_value = PInt 10000,
      unit = None\<rparr>
     [''building_area'' \<mapsto> PInt (10 ^ 400)] = Inl OverflowError"
  by (simp add: evaluate_condition_def float_compare_def except_value_type_error_def)

text \<open>
  What does hold of a single condition: an absent field gives \<open>False\<close>; \<open>EQUALS\<close> and
  \<open>NOT_EQUALS\<close> are \<open>==\<close> and its negation; and \<open>OverflowError\<close> is the only exception
  that can leave the function.
\<close>

lemma evaluate_condition_absent:
  "building_spec (field c) = None \<Longrightarrow> evaluate_condition c building_spec = Inr False"
  by (simp add: evaluate_condition_def)

lemma evaluate_condition_present:
  "building_spec (field c) = Some v \<Longrightarrow> v \<noteq> PNone \<Longrightarrow>
     evaluate_condition c building_spec =
       except_value_type_error
         (case operator c of
            EQUALS \<Rightarrow> Inr (py_eq v (cond_value c))
          | NOT_EQUALS \<Rightarrow> Inr (\<not> py_eq v (cond_value c))
          | GREATER_THAN \<Rightarrow> float_compare (\<lambda>a b. float_lt b a) v (cond_value c)
          | LESS_THAN \<Rightarrow> float_compare float_lt v (cond_value c)
          | GREATER_THAN_OR_EQUAL \<Rightarrow> float_compare (\<lambda>a b. float_le b a) v (cond_value c)
          | LESS_THAN_OR_EQUAL \<Rightarrow> float_compare float_le v (cond_value c)
          | IN \<Rightarrow> py_in v (cond_value c)
          | NOT_IN \<Rightarrow> py_not (py_in v (cond_value c)))"
  by (cases v) (auto simp: evaluate_condition_def Let_def)

lemma evaluate_condition_equals:
  assumes "building_spec (field c) = Some v" and "v \<noteq> PNone"
  shows "operator c = EQUALS \<Longrightarrow>
           evaluate_condition c building_spec = Inr (py_eq v (cond_value c))"
    and "operator c = NOT_EQUALS \<Longrightarrow>
           evaluate_condition c building_spec = Inr (\<not> py_eq v (cond_value c))"
  using assms by (simp_all add: evaluate_condition_present except_value_type_error_def)

lemma except_value_type_error_cases:
  "except_value_type_error r = Inl e \<Longrightarrow> r = Inl e \<and> e \<noteq> ValueError \<and> e \<noteq> TypeError"
  by (auto simp: except_value_type_error_def split: sum.splits py_error.splits)

lemma py_float_errors:
  "py_float x = Inl e \<Longrightarrow> e = TypeError \<or> e = ValueError \<or> e = OverflowError"
  by (cases x) (auto split: if_splits option.splits)

lemma float_compare_errors:
  "float_compare rel x y = Inl e \<Longrightarrow> e = TypeError \<or> e = ValueError \<or> e = OverflowError"
  by (auto simp: float_compare_def split: sum.splits dest: py_float_errors)

lemma py_in_errors: "py_in x c = Inl e \<Longrightarrow> e = TypeError"
  by (cases c; cases x) auto

lemma evaluate_condition_only_overflow:
  "evaluate_condition c building_spec = Inl e \<Longrightarrow> e = OverflowError"
proof -
  assume a: "evaluate_condition c building_spec = Inl e"
  then obtain v where v: "building_spec (field c) = Some v" "v \<noteq> PNone"
    by (cases "building_spec (field c)"; cases "the (building_spec (field c))")
       (auto simp: evaluate_condition_def)
  from a v have "except_value_type_error
    (case operator c of
       EQUALS \<Rightarrow> Inr (py_eq v (cond_value c))
     | NOT_EQUALS \<Rightarrow> Inr (\<not> py_eq v (cond_value c))
     | GREATER_THAN \<Rightarrow> float_compare (\<lambda>a b. float_lt b a) v (cond_value c)
     | LESS_THAN \<Rightarrow> float_compare float_lt v (cond_value c)
     | GREATER_THAN_OR_EQUAL \<Rightarrow> float_compare (\<lambda>a b. float_le b a) v (cond_value c)
     | LESS_THAN_OR_EQUAL \<Rightarrow> float_compare float_le v (cond_value c)
     | IN \<Rightarrow> py_in v (cond_value c)
     | NOT_IN \<Rightarrow> py_not (py_in v (cond_value c))) = Inl e" (is "except_value_type_error ?r = _")
    by (simp add: evaluate_condition_present)
  then have r: "?r = Inl e" and ne: "e \<noteq> ValueError" "e \<noteq> TypeError"
    using except_value_type_error_cases by blast+
  from r have "e = TypeError \<or> e = ValueError \<or> e = OverflowError"
    by (cases "operator c")
       (auto simp: py_not_def split: sum.splits dest: float_compare_errors py_in_errors)
  with ne show ?thesis by blast
qed

text \<open>
  C7. The membership operators. The claim reads \<open>IN\<close> on a string container as a test
  for one of its characters; \<open>char_membership\<close> states that reading.
\<close>

definition char_membership :: "pyval \<Rightarrow> string \<Rightarrow> bool" where
  "char_membership v s = list_ex (\<lambda>ch. v = PStr [ch]) s"

text \<open>
  The source applies Python's \<open>in\<close>, which on a string container looks for a contiguous
  occurrence: \<open>ffi\<close> is \<open>IN\<close> \<open>office\<close> although it is none of its characters.
\<close>

theorem in_string_is_not_char_membership:
  "evaluate_condition
     \<lparr>field = ''building_type'', operator = IN, cond_value = PStr ''office'', unit = None\<rparr>
     [''building_type'' \<mapsto> PStr ''ffi''] = Inr True \<and>
   \<not> char_membership (PStr ''ffi'') ''office''"
  by (simp add: evaluate_condition_def except_value_type_error_def char_membership_def
      sublist_code(3))

text \<open>
  C7, as the code has it. For a field present with a value other than \<open>None\<close>: on a string
  container, \<open>IN\<close> holds exactly when the value is a string that occurs in the container
  as a contiguous substring, \<open>NOT_IN\<close> when it is a string that does not, and a value
  that is not a string makes both false; on a list container, \<open>IN\<close> holds exactly when
  some element is the value itself or equals it (Python's membership of an element:
  \<open>x is e or x == e\<close>), and \<open>NOT_IN\<close> is its negation.
\<close>

theorem in_operator_membership:
  assumes "building_spec (field c) = Some v" and "v \<noteq> PNone"
    and "operator c = IN \<or> operator c = NOT_IN"
  shows "(cond_value c = PStr s \<longrightarrow>
            evaluate_condition c building_spec =
              Inr (case v of
                     PStr t \<Rightarrow> (if operator c = IN then sublist t s else \<not> sublist t s)
                   | _ \<Rightarrow> False)) \<and>
         (cond_value c = PList ys \<longrightarrow>
            evaluate_condition c building_spec =
              Inr (if operator c = IN then list_ex (identical_or_equal v) ys
                   else \<not> list_ex (identical_or_equal v) ys))"
  using assms
  by (cases v) (auto simp: evaluate_condition_def except_value_type_error_def py_not_def)

theorem in_operator_membership_witness:
  "evaluate_condition
     \<lparr>field = ''building_type'', operator = IN, cond_value = PStr ''office'', unit = None\<rparr>
     [''building_type'' \<mapsto> PStr ''ffi''] = Inr (sublist ''ffi'' ''office'') \<and>
   evaluate_condition
     \<lparr>field = ''climate_zone'', operator = NOT_IN,
      cond_value = PList [PStr ''1a'', PStr ''2a''], unit = None\<rparr>
     [''climate_zone'' \<mapsto> PStr ''4a''] = Inr True \<and>
   evaluate_condition
     \<lparr>field = ''u_factor'', operator = IN,
      cond_value = PList [PFloat (Finite 1), PFloat (NaN 0)], unit = None\<rparr>
     [''u_factor'' \<mapsto> PFloat (NaN 0)] = Inr True"
  using in_operator_membership
    [of "[''building_type'' \<mapsto> PStr ''ffi'']"
        "\<lparr>field = ''building_type'', operator = IN, cond_value = PStr ''office'',
          unit = None\<rparr>"
        "PStr ''ffi''" "''office''" "[]"]
    in_operator_membership
    [of "[''climate_zone'' \<mapsto> PStr ''4a'']"
        "\<lparr>field = ''climate_zone'', operator = NOT_IN,
          cond_value = PList [PStr ''1a'', PStr ''2a''], unit = None\<rparr>"
        "PStr ''4a''" "[]" "[PStr ''1a'', PStr ''2a'']"]
    in_operator_membership
    [of "[''u_factor'' \<mapsto> PFloat (NaN 0)]"
        "\<lparr>field = ''u_factor'', operator = IN,
          cond_value = PList [PFloat (Finite 1), PFloat (NaN 0)], unit = None\<rparr>"
        "PFloat (NaN 0)" "[]" "[PFloat (Finite 1), PFloat (NaN 0)]"]
  by (simp add: identical_or_equal_def num_eq_def)

text \<open>
  A NaN is in a list that holds the same NaN object, and in no list that holds only other
  NaN objects; it is never \<open>EQUALS\<close> to anything.
\<close>

lemma nan_membership:
  "identical_or_equal (PFloat (NaN i)) (PFloat (NaN j)) = (i = j)"
  "\<not> py_eq (PFloat (NaN i)) y"
  by (cases y; simp add: identical_or_equal_def num_eq_def split: option.splits)+

section \<open>Rule sets\<close>

text \<open>
  Notions for statements about \<open>evaluate\<close>: a rule is matched when \<open>evaluate_rule\<close>
  returns \<open>True\<close>, it raises when \<open>evaluate_rule\<close> raises, it writes a target when
  one of its actions names it; the writers of a target are the matched rules that write
  it, in processing order; \<open>applied\<close> runs the actions of a list of rules, rule by rule.
\<close>

definition matched :: "rule \<Rightarrow> building_spec \<Rightarrow> bool" where
  "matched r building_spec = (evaluate_rule r building_spec = Inr True)"

definition writes :: "string \<Rightarrow> rule \<Rightarrow> bool" where
  "writes t r = list_ex (\<lambda>a. target a = t) (actions r)"

definition writers :: "string \<Rightarrow> rule list \<Rightarrow> building_spec \<Rightarrow> rule list" where
  "writers t rs building_spec =
     filter (\<lambda>r. matched r building_spec \<and> writes t r) (sorted_rules rs)"

definition raises :: "rule \<Rightarrow> building_spec \<Rightarrow> bool" where
  "raises r building_spec =
     (case evaluate_rule r building_spec of Inl e \<Rightarrow> True | Inr m \<Rightarrow> False)"

text \<open>
  An example rule: when \<open>building_type\<close> is \<open>office\<close>, set target \<open>t\<close> to \<open>v\<close>.
\<close>

definition office_rule :: "string \<Rightarrow> int \<Rightarrow> string \<Rightarrow> pyval \<Rightarrow> rule" where
  "office_rule i p t v =
     \<lparr>rule_id = i, name = i, description = i, category = ''lighting'',
      conditions = Condition \<lparr>field = ''building_type'', operator = EQUALS,
                              cond_value = PStr ''office'', unit = None\<rparr>,
      actions = [\<lparr>action_type = ''set_value'', target = t, action_value = v,
                  parameters = []\<rparr>],
      priority = p, rule_metadata = []\<rparr>"

definition applied :: "rule list \<Rightarrow> (string \<rightharpoonup> pyval) \<Rightarrow> (string \<rightharpoonup> pyval)" where
  "applied ms props = foldl (\<lambda>p r. apply_actions (actions r) p) props ms"

text \<open>
  The last action on a target decides its value, within a rule and across rules.
\<close>

lemma apply_action_upd:
  "apply_action a p = p(target a := apply_action a Map.empty (target a))"
  by (auto simp: apply_action_def Let_def fun_eq_iff)

lemma apply_action_target: "apply_action a p (target a) \<noteq> None"
  by (auto simp: apply_action_def Let_def)

lemma apply_actions_last_write:
  "apply_actions as p t =
     (if list_ex (\<lambda>a. target a = t) as then apply_actions as Map.empty t else p t)"
proof (induction as arbitrary: p)
  case Nil
  then show ?case by simp
next
  case (Cons a as)
  have "apply_actions (a # as) p t = apply_actions as (apply_action a p) t" by simp
  also have "\<dots> = (if list_ex (\<lambda>a. target a = t) as then apply_actions as Map.empty t
                    else apply_action a p t)"
    using Cons.IH by simp
  finally have l: "apply_actions (a # as) p t =
      (if list_ex (\<lambda>a. target a = t) as then apply_actions as Map.empty t
       else apply_action a p t)" .
  have "apply_actions (a # as) Map.empty t = apply_actions as (apply_action a Map.empty) t"
    by simp
  also have "\<dots> = (if list_ex (\<lambda>a. target a = t) as then apply_actions as Map.empty t
                    else apply_action a Map.empty t)"
    using Cons.IH by simp
  finally have r: "apply_actions (a # as) Map.empty t =
      (if list_ex (\<lambda>a. target a = t) as then apply_actions as Map.empty t
       else apply_action a Map.empty t)" .
  have u: "apply_action a p t = (if target a = t then apply_action a Map.empty t else p t)"
    by (subst apply_action_upd) auto
  show ?case unfolding l r using u by auto
qed

lemma apply_actions_written:
  "list_ex (\<lambda>a. target a = t) as \<Longrightarrow> apply_actions as p t \<noteq> None"
proof (induction as arbitrary: p)
  case Nil
  then show ?case by simp
next
  case (Cons a as)
  show ?case
  proof (cases "list_ex (\<lambda>a. target a = t) as")
    case True
    then show ?thesis using Cons.IH by simp
  next
    case False
    with Cons.prems have ta: "target a = t" by simp
    have "apply_actions (a # as) p t = apply_action a p t"
      using False apply_actions_last_write [of as "apply_action a p" t] by simp
    then show ?thesis using ta apply_action_target [of a p] by simp
  qed
qed

lemma applied_last_writer:
  assumes "filter (writes t) ms \<noteq> []"
  shows "applied ms p t = apply_actions (actions (last (filter (writes t) ms))) Map.empty t"
  using assms
proof (induction ms rule: rev_induct)
  case Nil
  then show ?case by simp
next
  case (snoc r ms)
  have step: "applied (ms @ [r]) p t = apply_actions (actions r) (applied ms p) t"
    by (simp add: applied_def)
  show ?case
  proof (cases "writes t r")
    case True
    then have ex: "list_ex (\<lambda>a. target a = t) (actions r)" by (simp add: writes_def)
    have "applied (ms @ [r]) p t = apply_actions (actions r) Map.empty t"
      using step ex apply_actions_last_write [of "actions r" "applied ms p" t] by simp
    then show ?thesis using True by simp
  next
    case False
    then have nex: "\<not> list_ex (\<lambda>a. target a = t) (actions r)" by (simp add: writes_def)
    from False snoc.prems have "filter (writes t) ms \<noteq> []" by simp
    with snoc.IH have "applied ms p t =
        apply_actions (actions (last (filter (writes t) ms))) Map.empty t" by simp
    moreover have "applied (ms @ [r]) p t = applied ms p t"
      using step nex apply_actions_last_write [of "actions r" "applied ms p" t] by simp
    ultimately show ?thesis using False by simp
  qed
qed

text \<open>
  What \<open>evaluate\<close> appends for one rule, and the first exception that evaluating the
  rules of a list, in list order, meets.
\<close>

definition matched_entry_of :: "rule \<Rightarrow> matched_entry" where
  "matched_entry_of r = \<lparr>m_rule_id = rule_id r, m_rule_name = name r, m_category = category r\<rparr>"

definition log_entry_of :: "rule \<Rightarrow> building_spec \<Rightarrow> log_entry" where
  "log_entry_of r building_spec =
     (if matched r building_spec then
        \<lparr>l_rule_id = rule_id r, status = ''matched'',
         message = ''Rule '' @ [CHR 0x27] @ name r @ [CHR 0x27] @ '' matched and applied''\<rparr>
      else
        \<lparr>l_rule_id = rule_id r, status = ''not_matched'',
         message = ''Rule '' @ [CHR 0x27] @ name r @ [CHR 0x27] @ '' conditions not met''\<rparr>)"

fun first_raise :: "rule list \<Rightarrow> building_spec \<Rightarrow> py_error option" where
  "first_raise [] building_spec = None"
| "first_raise (r # rs) building_spec =
     (case evaluate_rule r building_spec of
        Inl e \<Rightarrow> Some e
      | Inr m \<Rightarrow> first_raise rs building_spec)"

text \<open>
  An example rule: when \<open>building_area\<close> is greater than 10000, set target \<open>t\<close> to \<open>v\<close>.
\<close>

definition large_area_rule :: "string \<Rightarrow> int \<Rightarrow> string \<Rightarrow> pyval \<Rightarrow> rule" where
  "large_area_rule i p t v =
     \<lparr>rule_id = i, name = i, description = i, category = ''hvac'',
      conditions = Condition \<lparr>field = ''building_area'', operator = GREATER_THAN,
                              cond_value = PInt 10000, unit = None\<rparr>,
      actions = [\<lparr>action_type = ''set_value'', target = t, action_value = v,
                  parameters = []\<rparr>],
      priority = p, rule_metadata = []\<rparr>"

text \<open>
  The loop of \<open>evaluate\<close> in closed form: it raises what the first rule that raises
  raises, and otherwise appends, in list order, the entries of the matched rules, the
  writes of their actions and one log entry per rule.
\<close>

lemma evaluate_loop_closed:
  "evaluate_loop rs building_spec b =
     (case first_raise rs building_spec of
        Some e \<Rightarrow> Inl e
      | None \<Rightarrow>
          Inr (b\<lparr>matched_rules := matched_rules b @
                    map matched_entry_of (filter (\<lambda>r. matched r building_spec) rs),
                 baseline_properties :=
                    applied (filter (\<lambda>r. matched r building_spec) rs) (baseline_properties b),
                 evaluation_log := evaluation_log b @
                    map (\<lambda>r. log_entry_of r building_spec) rs\<rparr>))"
proof (induction rs arbitrary: b)
  case Nil
  then show ?case by (simp add: applied_def)
next
  case (Cons r rs)
  show ?case
  proof (cases "evaluate_rule r building_spec")
    case (Inl e)
    then show ?thesis by simp
  next
    case (Inr m)
    show ?thesis
    proof (cases m)
      case True
      with Inr have mt: "matched r building_spec" by (simp add: matched_def)
      show ?thesis
        using Inr True mt
        by (simp add: Cons.IH applied_def matched_entry_of_def log_entry_of_def
            split: option.splits)
    next
      case False
      with Inr have mt: "\<not> matched r building_spec" by (simp add: matched_def)
      show ?thesis
        using Inr False mt
        by (simp add: Cons.IH applied_def log_entry_of_def split: option.splits)
    qed
  qed
qed

lemma sorted_wrt_last:
  "sorted_wrt R xs \<Longrightarrow> x \<in> set xs \<Longrightarrow> x = last xs \<or> R x (last xs)"
  by (induction xs) auto

lemma sorted_rules_descending:
  "sorted_wrt (\<lambda>r r'. priority r' \<le> priority r) (sorted_rules rs)"
proof -
  have "sorted (map (\<lambda>r. - priority r) (sorted_rules rs))"
    by (simp add: sorted_rules_def)
  then show ?thesis by (simp add: sorted_map)
qed

lemma sorted_rules_stable:
  "filter (\<lambda>r. priority r = p) (sorted_rules rs) = filter (\<lambda>r. priority r = p) rs"
  using sort_key_stable [of "\<lambda>r. - priority r" "- p" rs] by (simp add: sorted_rules_def)

lemma evaluate_closed:
  "evaluate rs building_spec =
     (case first_raise (sorted_rules rs) building_spec of
        Some e \<Rightarrow> Inl e
      | None \<Rightarrow>
          Inr \<lparr>input = building_spec,
               matched_rules =
                 map matched_entry_of (filter (\<lambda>r. matched r building_spec) (sorted_rules rs)),
               baseline_properties =
                 applied (filter (\<lambda>r. matched r building_spec) (sorted_rules rs)) Map.empty,
               evaluation_log = map (\<lambda>r. log_entry_of r building_spec) (sorted_rules rs)\<rparr>)"
  by (simp add: evaluate_def evaluate_loop_closed split: option.splits)

lemma first_raise_None:
  "(\<forall>r\<in>set rs. \<not> raises r building_spec) \<Longrightarrow> first_raise rs building_spec = None"
  by (induction rs) (auto simp: raises_def split: sum.splits)

text \<open>
  C8. For every rule set and building specification, \<open>evaluate\<close> processes the rules in
  the order of \<open>sorted_rules\<close>: the evaluation log has one entry per rule in that order,
  the matched rules are listed and their actions applied in that order, and when a rule
  raises, the exception is that of the first rule in that order that raises. The order
  is by non-increasing priority and keeps rules of equal priority in their order in the
  schema (at every priority, the sorted list and the schema hold the same rules in the
  same order). Three rules of priorities 5, 10, 5 are logged as the rule of priority 10,
  then the first and the second rule of priority 5.
\<close>

theorem evaluate_in_priority_order:
  "evaluate rs building_spec =
     (case first_raise (sorted_rules rs) building_spec of
        Some e \<Rightarrow> Inl e
      | None \<Rightarrow>
          Inr \<lparr>input = building_spec,
               matched_rules =
                 map matched_entry_of (filter (\<lambda>r. matched r building_spec) (sorted_rules rs)),
               baseline_properties =
                 applied (filter (\<lambda>r. matched r building_spec) (sorted_rules rs)) Map.empty,
               evaluation_log = map (\<lambda>r. log_entry_of r building_spec) (sorted_rules rs)\<rparr>) \<and>
   sorted_wrt (\<lambda>r r'. priority r' \<le> priority r) (sorted_rules rs) \<and>
   (\<forall>p. filter (\<lambda>r. priority r = p) (sorted_rules rs) = filter (\<lambda>r. priority r = p) rs) \<and>
   set (sorted_rules rs) = set rs \<and> length (sorted_rules rs) = length rs"
  using evaluate_closed [of rs building_spec] sorted_rules_descending [of rs] sorted_rules_stable
  by (simp add: sorted_rules_def)

theorem evaluate_in_priority_order_witness:
  "\<exists>b. evaluate [office_rule ''first5'' 5 ''a'' PNone, office_rule ''ten'' 10 ''b'' PNone,
                   office_rule ''second5'' 5 ''c'' PNone]
          [''building_type'' \<mapsto> PStr ''office''] = Inr b \<and>
        map l_rule_id (evaluation_log b) = [''ten'', ''first5'', ''second5'']"
  using evaluate_in_priority_order
    [of "[office_rule ''first5'' 5 ''a'' PNone, office_rule ''ten'' 10 ''b'' PNone,
          office_rule ''second5'' 5 ''c'' PNone]"
        "[''building_type'' \<mapsto> PStr ''office'']"]
  by (simp add: evaluate_rule_def evaluate_condition_def matched_def log_entry_of_def
      except_value_type_error_def office_rule_def sorted_rules_def)

text \<open>
  Last write wins, where \<open>evaluate\<close> returns: when no rule raises and some matched rule
  writes target \<open>t\<close>, the final value of \<open>t\<close> is the value written by the matched rule
  processed last among those that write \<open>t\<close>, which has the lowest priority of them.
  With two matched rules of priorities 10 and 1 the value of the rule of priority 1
  remains.
\<close>

lemma last_write_wins:
  assumes "\<forall>r\<in>set rs. \<not> raises r building_spec"
    and "writers t rs building_spec \<noteq> []"
  shows "\<exists>b. evaluate rs building_spec = Inr b \<and>
           baseline_properties b t =
             apply_actions (actions (last (writers t rs building_spec))) Map.empty t \<and>
           baseline_properties b t \<noteq> None \<and>
           (\<forall>r\<in>set (writers t rs building_spec).
              priority (last (writers t rs building_spec)) \<le> priority r)"
proof -
  let ?ms = "filter (\<lambda>r. matched r building_spec) (sorted_rules rs)"
  let ?ws = "writers t rs building_spec"
  have ws: "filter (writes t) ?ms = ?ws"
    by (simp add: writers_def)
  from assms(1) have "first_raise (sorted_rules rs) building_spec = None"
    by (intro first_raise_None) (simp add: sorted_rules_def)
  then obtain b where
    b: "evaluate rs building_spec = Inr b" "baseline_properties b = applied ?ms Map.empty"
    using evaluate_closed [of rs building_spec] by simp
  from assms(2) ws have ne: "filter (writes t) ?ms \<noteq> []" by simp
  have v: "baseline_properties b t = apply_actions (actions (last ?ws)) Map.empty t"
    using applied_last_writer [OF ne, of Map.empty] b(2) ws by simp
  from assms(2) have "last ?ws \<in> set ?ws" by simp
  then have "writes t (last ?ws)" by (simp add: writers_def)
  then have "apply_actions (actions (last ?ws)) Map.empty t \<noteq> None"
    using apply_actions_written by (simp add: writes_def)
  with v have nn: "baseline_properties b t \<noteq> None" by simp
  have "sorted_wrt (\<lambda>r r'. priority r' \<le> priority r) ?ws"
    unfolding writers_def using sorted_rules_descending [of rs] by (rule sorted_wrt_filter)
  then have "\<forall>r\<in>set ?ws. priority (last ?ws) \<le> priority r"
    using sorted_wrt_last by fastforce
  with b(1) v nn show ?thesis by blast
qed

lemma last_write_wins_example:
  "\<exists>b. evaluate [office_rule ''high'' 10 ''lighting_power_density'' (PInt 1),
                   office_rule ''low'' 1 ''lighting_power_density'' (PInt 2)]
          [''building_type'' \<mapsto> PStr ''office''] = Inr b \<and>
        baseline_properties b ''lighting_power_density'' = Some (PInt 2)"
  using last_write_wins
    [of "[office_rule ''high'' 10 ''lighting_power_density'' (PInt 1),
          office_rule ''low'' 1 ''lighting_power_density'' (PInt 2)]"
        "[''building_type'' \<mapsto> PStr ''office'']" "''lighting_power_density''"]
  by (auto simp: raises_def evaluate_rule_def evaluate_condition_def matched_def
      except_value_type_error_def office_rule_def sorted_rules_def writers_def writes_def
      apply_action_def)

text \<open>
  C2. The final value of a target that two matched rules write is meant to be the value
  of the one processed last. With a third rule whose condition compares an integer too
  large for a double (the exception that \<open>_evaluate_condition\<close> lets through, see C3),
  \<open>evaluate\<close> raises and there is no final value at all.
\<close>

theorem last_write_lost_when_a_rule_raises:
  "matched (office_rule ''high'' 10 ''lighting_power_density'' (PInt 1))
     [''building_type'' \<mapsto> PStr ''office'', ''building_area'' \<mapsto> PInt (10 ^ 400)] \<and>
   matched (office_rule ''low'' 1 ''lighting_power_density'' (PInt 2))
     [''building_type'' \<mapsto> PStr ''office'', ''building_area'' \<mapsto> PInt (10 ^ 400)] \<and>
   evaluate [office_rule ''high'' 10 ''lighting_power_density'' (PInt 1),
             office_rule ''low'' 1 ''lighting_power_density'' (PInt 2),
             large_area_rule ''large'' 5 ''cooling'' (PInt 3)]
     [''building_type'' \<mapsto> PStr ''office'', ''building_area'' \<mapsto> PInt (10 ^ 400)] =
     Inl OverflowError"
  by (simp add: evaluate_def sorted_rules_def evaluate_rule_def evaluate_condition_def
      matched_def except_value_type_error_def float_compare_def office_rule_def
      large_area_rule_def)

section \<open>Serialisation of a schema\<close>

text \<open>
  \<open>to_dict\<close> and \<open>from_dict\<close> of \<open>schema.py\<close> over the generic-map representation. The
  steps of a constructor call run in the order of the source and stop at the first
  exception (\<open>and_then\<close>); a loop over a list stops at the first element that raises
  (\<open>sequence_results\<close>).
\<close>

definition and_then :: "'e + 'a \<Rightarrow> ('a \<Rightarrow> 'e + 'b) \<Rightarrow> 'e + 'b" where
  "and_then r f = (case r of Inl e \<Rightarrow> Inl e | Inr x \<Rightarrow> f x)"

lemma and_then_cong [fundef_cong]:
  "r = r' \<Longrightarrow> (\<And>x. r' = Inr x \<Longrightarrow> f x = f' x) \<Longrightarrow> and_then r f = and_then r' f'"
  by (auto simp: and_then_def split: sum.splits)

lemma and_then_simps [simp]:
  "and_then (Inl e) f = Inl e" "and_then (Inr x) f = f x"
  by (simp_all add: and_then_def)

fun sequence_results :: "('e + 'a) list \<Rightarrow> 'e + 'a list" where
  "sequence_results [] = Inr []"
| "sequence_results (r # rs) =
     and_then r (\<lambda>x. and_then (sequence_results rs) (\<lambda>xs. Inr (x # xs)))"

text \<open>
  \<open>data[k]\<close>, \<open>data.get(k, default)\<close> and iteration, on any value: indexing anything but
  a dictionary with a string is a \<open>TypeError\<close>, \<open>.get\<close> exists on dictionaries only,
  iterating a string gives its characters and iterating a dictionary its keys.
\<close>

fun getitem :: "pyval \<Rightarrow> string \<Rightarrow> py_error + pyval" where
  "getitem (PDict d) k = (case map_of d k of None \<Rightarrow> Inl KeyError | Some v \<Rightarrow> Inr v)"
| "getitem x k = Inl TypeError"

fun get_default :: "pyval \<Rightarrow> string \<Rightarrow> pyval \<Rightarrow> py_error + pyval" where
  "get_default (PDict d) k dflt = Inr (case map_of d k of None \<Rightarrow> dflt | Some v \<Rightarrow> v)"
| "get_default x k dflt = Inl AttributeError"

fun py_iter :: "pyval \<Rightarrow> py_error + pyval list" where
  "py_iter (PList xs) = Inr xs"
| "py_iter (PStr s) = Inr (map (\<lambda>c. PStr [c]) s)"
| "py_iter (PDict d) = Inr (map (\<lambda>kv. PStr (fst kv)) d)"
| "py_iter x = Inl TypeError"

text \<open>
  The dataclasses do not check their fields. A document that puts a value of another type
  where a string, an integer or a dictionary is declared would yield an object outside the
  data model; the model marks it \<open>IllTyped\<close>, after every step of the source has run.
\<close>

fun as_str :: "pyval \<Rightarrow> py_error + string" where
  "as_str (PStr s) = Inr s"
| "as_str x = Inl IllTyped"

fun as_optional_str :: "pyval \<Rightarrow> py_error + string option" where
  "as_optional_str PNone = Inr None"
| "as_optional_str (PStr s) = Inr (Some s)"
| "as_optional_str x = Inl IllTyped"

fun as_int :: "pyval \<Rightarrow> py_error + int" where
  "as_int (PInt i) = Inr i"
| "as_int x = Inl IllTyped"

fun as_dict :: "pyval \<Rightarrow> py_error + (string \<times> pyval) list" where
  "as_dict (PDict d) = Inr d"
| "as_dict x = Inl IllTyped"

text \<open>The literals of the two enumerations, and the lookup of a member by its literal.\<close>

fun comparison_value :: "ComparisonOperator \<Rightarrow> string" where
  "comparison_value EQUALS = ''equals''"
| "comparison_value NOT_EQUALS = ''not_equals''"
| "comparison_value GREATER_THAN = ''greater_than''"
| "comparison_value LESS_THAN = ''less_than''"
| "comparison_value GREATER_THAN_OR_EQUAL = ''greater_than_or_equal''"
| "comparison_value LESS_THAN_OR_EQUAL = ''less_than_or_equal''"
| "comparison_value IN = ''in''"
| "comparison_value NOT_IN = ''not_in''"

fun logical_value :: "LogicalOperator \<Rightarrow> string" where
  "logical_value AND = ''and''"
| "logical_value OR = ''or''"
| "logical_value NOT = ''not''"

definition comparison_operator :: "pyval \<Rightarrow> py_error + ComparisonOperator" where
  "comparison_operator x =
     (case find (\<lambda>op. x = PStr (comparison_value op))
             [EQUALS, NOT_EQUALS, GREATER_THAN, LESS_THAN, GREATER_THAN_OR_EQUAL,
              LESS_THAN_OR_EQUAL, IN, NOT_IN] of
        Some op \<Rightarrow> Inr op
      | None \<Rightarrow> Inl ValueError)"

definition logical_operator :: "pyval \<Rightarrow> py_error + LogicalOperator" where
  "logical_operator x =
     (case find (\<lambda>op. x = PStr (logical_value op)) [AND, OR, NOT] of
        Some op \<Rightarrow> Inr op
      | None \<Rightarrow> Inl ValueError)"

text \<open>
  \<open>to_dict\<close>. A condition writes its unit under \<open>if self.unit:\<close>, which is false for
  \<open>None\<close> and for the empty string; parameters and metadata are written when not empty.
\<close>

definition truthy_str :: "string option \<Rightarrow> bool" where
  "truthy_str u = (case u of None \<Rightarrow> False | Some s \<Rightarrow> s \<noteq> [])"

definition condition_to_dict :: "condition \<Rightarrow> pyval" where
  "condition_to_dict c =
     PDict ([(''field'', PStr (field c)),
             (''operator'', PStr (comparison_value (operator c))),
             (''value'', cond_value c)] @
            (if truthy_str (unit c) then [(''unit'', PStr (the (unit c)))] else []))"

fun node_to_dict :: "condition_node \<Rightarrow> pyval" where
  "node_to_dict (Condition c) = condition_to_dict c"
| "node_to_dict (ConditionGroup lop cs) =
     PDict [(''operator'', PStr (logical_value lop)),
            (''conditions'', PList (map node_to_dict cs))]"

definition action_to_dict :: "action \<Rightarrow> pyval" where
  "action_to_dict a =
     PDict ([(''action_type'', PStr (action_type a)),
             (''target'', PStr (target a)),
             (''value'', action_value a)] @
            (if parameters a \<noteq> [] then [(''parameters'', PDict (parameters a))] else []))"

definition rule_to_dict :: "rule \<Rightarrow> pyval" where
  "rule_to_dict r =
     PDict ([(''id'', PStr (rule_id r)),
             (''name'', PStr (name r)),
             (''description'', PStr (description r)),
             (''category'', PStr (category r)),
             (''conditions'', node_to_dict (conditions r)),
             (''actions'', PList (map action_to_dict (actions r))),
             (''priority'', PInt (priority r))] @
            (if rule_metadata r \<noteq> [] then [(''metadata'', PDict (rule_metadata r))] else []))"

definition to_dict :: "rule_schema \<Rightarrow> pyval" where
  "to_dict s =
     PDict ([(''version'', PStr (version s)),
             (''rules'', PList (map rule_to_dict (rules s)))] @
            (if schema_metadata s \<noteq> [] then [(''metadata'', PDict (schema_metadata s))]
             else []))"

text \<open>
  \<open>from_dict\<close>. \<open>parse_node\<close> is the test that the source makes both for the conditions of
  a rule and for each member of a group: a document with the keys \<open>operator\<close> and
  \<open>conditions\<close> is a group, any other a single condition.
\<close>

definition parse_condition :: "pyval \<Rightarrow> py_error + condition" where
  "parse_condition data =
     and_then (getitem data ''field'') (\<lambda>f.
     and_then (getitem data ''operator'') (\<lambda>opv.
     and_then (comparison_operator opv) (\<lambda>op.
     and_then (getitem data ''value'') (\<lambda>v.
     and_then (get_default data ''unit'' PNone) (\<lambda>u.
     and_then (as_str f) (\<lambda>f'.
     and_then (as_optional_str u) (\<lambda>u'.
       Inr \<lparr>field = f', operator = op, cond_value = v, unit = u'\<rparr>)))))))"

definition is_group :: "pyval \<Rightarrow> py_error + bool" where
  "is_group data =
     and_then (py_in (PStr ''operator'') data) (\<lambda>has_operator.
       if has_operator then py_in (PStr ''conditions'') data else Inr False)"

lemma getitem_size: "getitem d k = Inr v \<Longrightarrow> size v < size d"
proof (cases d)
  case (PDict kvs)
  assume "getitem d k = Inr v"
  with PDict have "map_of kvs k = Some v" by (simp split: option.splits)
  then have "(k, v) \<in> set kvs" by (rule map_of_SomeD)
  then have "size v < Suc (size_list (size_prod (\<lambda>x. 0) size) kvs)"
    by (induction kvs) auto
  with PDict show ?thesis by simp
qed simp_all

lemma py_iter_size: "py_iter s = Inr xs \<Longrightarrow> x \<in> set xs \<Longrightarrow> size x \<le> size s"
proof (cases s)
  case (PList ys)
  assume "py_iter s = Inr xs" "x \<in> set xs"
  with PList have "x \<in> set ys" by simp
  then have "size x \<le> size_list size ys" by (induction ys) auto
  with PList show ?thesis by simp
qed auto

function parse_node :: "pyval \<Rightarrow> py_error + condition_node"
  and parse_condition_group :: "pyval \<Rightarrow> py_error + condition_node"
where
  "parse_node data =
     and_then (is_group data) (\<lambda>group.
       if group then parse_condition_group data
       else and_then (parse_condition data) (\<lambda>c. Inr (Condition c)))"
| "parse_condition_group data =
     and_then (getitem data ''conditions'') (\<lambda>seq.
     and_then (py_iter seq) (\<lambda>items.
     and_then (sequence_results (map parse_node items)) (\<lambda>conds.
     and_then (getitem data ''operator'') (\<lambda>opv.
     and_then (logical_operator opv) (\<lambda>lop.
       Inr (ConditionGroup lop conds))))))"
  by pat_completeness auto
termination
proof (relation "measure (\<lambda>x. case x of Inl d \<Rightarrow> 2 * size d + 1 | Inr d \<Rightarrow> 2 * size d)",
    goal_cases)
  case 1
  then show ?case by simp
next
  case (2 data g)
  then show ?case by simp
next
  case (3 data seq items x)
  from 3(1) have "size seq < size data" by (rule getitem_size)
  moreover from 3(2,3) have "size x \<le> size seq" by (rule py_iter_size)
  ultimately show ?case by simp
qed

declare parse_node.simps [simp del] parse_condition_group.simps [simp del]

definition parse_action :: "pyval \<Rightarrow> py_error + action" where
  "parse_action action_data =
     and_then (getitem action_data ''action_type'') (\<lambda>ty.
     and_then (getitem action_data ''target'') (\<lambda>tg.
     and_then (getitem action_data ''value'') (\<lambda>v.
     and_then (get_default action_data ''parameters'' (PDict [])) (\<lambda>ps.
     and_then (as_str ty) (\<lambda>ty'.
     and_then (as_str tg) (\<lambda>tg'.
     and_then (as_dict ps) (\<lambda>ps'.
       Inr \<lparr>action_type = ty', target = tg', action_value = v, parameters = ps'\<rparr>)))))))"

definition parse_rule :: "pyval \<Rightarrow> py_error + rule" where
  "parse_rule rule_data =
     and_then (getitem rule_data ''conditions'') (\<lambda>conditions_data.
     and_then (parse_node conditions_data) (\<lambda>conds.
     and_then (getitem rule_data ''actions'') (\<lambda>actions_data.
     and_then (py_iter actions_data) (\<lambda>items.
     and_then (sequence_results (map parse_action items)) (\<lambda>acts.
     and_then (getitem rule_data ''id'') (\<lambda>i.
     and_then (getitem rule_data ''name'') (\<lambda>n.
     and_then (getitem rule_data ''description'') (\<lambda>d.
     and_then (getitem rule_data ''category'') (\<lambda>c.
     and_then (get_default rule_data ''priority'' (PInt 0)) (\<lambda>p.
     and_then (get_default rule_data ''metadata'' (PDict [])) (\<lambda>m.
     and_then (as_str i) (\<lambda>i'.
     and_then (as_str n) (\<lambda>n'.
     and_then (as_str d) (\<lambda>d'.
     and_then (as_str c) (\<lambda>c'.
     and_then (as_int p) (\<lambda>p'.
     and_then (as_dict m) (\<lambda>m'.
       Inr \<lparr>rule_id = i', name = n', description = d', category = c', conditions = conds,
            actions = acts, priority = p', rule_metadata = m'\<rparr>)))))))))))))))))"

definition from_dict :: "pyval \<Rightarrow> py_error + rule_schema" where
  "from_dict data =
     and_then (get_default data ''rules'' (PList [])) (\<lambda>rules_data.
     and_then (py_iter rules_data) (\<lambda>items.
     and_then (sequence_results (map parse_rule items)) (\<lambda>rs.
     and_then (getitem data ''version'') (\<lambda>v.
     and_then (get_default data ''metadata'' (PDict [])) (\<lambda>m.
     and_then (as_str v) (\<lambda>v'.
     and_then (as_dict m) (\<lambda>m'.
       Inr \<lparr>version = v', rules = rs, schema_metadata = m'\<rparr>)))))))"


text \<open>
  C9. A schema keeps its units when no condition of any rule has the empty string as its
  unit. \<open>empty_unit_schema\<close> is a schema with one rule whose condition has the unit \<open>""\<close>.
\<close>

fun units_kept :: "condition_node \<Rightarrow> bool" where
  "units_kept (Condition c) = (unit c \<noteq> Some [])"
| "units_kept (ConditionGroup lop cs) = list_all units_kept cs"

definition schema_units_kept :: "rule_schema \<Rightarrow> bool" where
  "schema_units_kept s = list_all (\<lambda>r. units_kept (conditions r)) (rules s)"

definition empty_unit_schema :: rule_schema where
  "empty_unit_schema =
     \<lparr>version = ''1.0'',
      rules = [\<lparr>rule_id = ''r1'', name = ''n'', description = ''d'', category = ''general'',
                conditions = Condition \<lparr>field = ''building_area'', operator = GREATER_THAN,
                                        cond_value = PInt 10000, unit = Some []\<rparr>,
                actions = [], priority = 0, rule_metadata = []\<rparr>],
      schema_metadata = []\<rparr>"

text \<open>Each parser inverts its serialiser.\<close>

lemma comparison_operator_value [simp]:
  "comparison_operator (PStr (comparison_value op)) = Inr op"
  by (cases op) (simp_all add: comparison_operator_def)

lemma logical_operator_value [simp]:
  "logical_operator (PStr (logical_value lop)) = Inr lop"
  by (cases lop) (simp_all add: logical_operator_def)

lemma parse_condition_to_dict:
  "unit c \<noteq> Some [] \<Longrightarrow> parse_condition (condition_to_dict c) = Inr c"
  by (cases "unit c") (simp_all add: parse_condition_def condition_to_dict_def truthy_str_def)

lemma is_group_condition: "is_group (condition_to_dict c) = Inr False"
  by (cases "truthy_str (unit c)") (simp_all add: is_group_def condition_to_dict_def)

lemma sequence_results_map:
  "(\<And>x. x \<in> set xs \<Longrightarrow> f (g x) = Inr x) \<Longrightarrow> sequence_results (map f (map g xs)) = Inr xs"
  by (induction xs) simp_all

lemma parse_node_to_dict: "units_kept n \<Longrightarrow> parse_node (node_to_dict n) = Inr n"
proof (induction n)
  case (Condition c)
  then show ?case
    by (simp add: parse_node.simps is_group_condition parse_condition_to_dict)
next
  case (ConditionGroup lop cs)
  have "sequence_results (map parse_node (map node_to_dict cs)) = Inr cs"
    using ConditionGroup by (intro sequence_results_map) (simp add: list_all_iff)
  then show ?case
    by (simp add: parse_node.simps parse_condition_group.simps is_group_def)
qed

lemma parse_action_to_dict: "parse_action (action_to_dict a) = Inr a"
  by (simp add: parse_action_def action_to_dict_def)

lemma parse_rule_to_dict:
  assumes "units_kept (conditions r)"
  shows "parse_rule (rule_to_dict r) = Inr r"
proof -
  have "sequence_results (map parse_action (map action_to_dict (actions r))) = Inr (actions r)"
    by (intro sequence_results_map) (simp add: parse_action_to_dict)
  then show ?thesis
    using parse_node_to_dict [OF assms] by (simp add: parse_rule_def rule_to_dict_def)
qed

text \<open>
  C9, as the code has it. For every schema in which no condition has the empty string as
  its unit, deserialising the serialisation returns the schema itself: every scalar,
  every nested condition tree and every action list.
\<close>

theorem schema_round_trip:
  assumes "schema_units_kept s"
  shows "from_dict (to_dict s) = Inr s"
proof -
  have "sequence_results (map parse_rule (map rule_to_dict (rules s))) = Inr (rules s)"
    using assms
    by (intro sequence_results_map) (simp add: schema_units_kept_def list_all_iff parse_rule_to_dict)
  then show ?thesis by (simp add: from_dict_def to_dict_def)
qed

text \<open>
  C9, as stated, fails: \<open>to_dict\<close> leaves out a unit that is the empty string, and
  \<open>from_dict\<close> then reads the unit as \<open>None\<close>.
\<close>

theorem empty_unit_not_restored:
  "from_dict (to_dict empty_unit_schema) \<noteq> Inr empty_unit_schema"
  by (simp add: from_dict_def to_dict_def empty_unit_schema_def parse_rule_def rule_to_dict_def
      parse_node.simps is_group_def condition_to_dict_def truthy_str_def parse_condition_def
      comparison_operator_def)

definition example_schema :: rule_schema where
  "example_schema =
     \<lparr>version = ''1.0'',
      rules =
        [\<lparr>rule_id = ''r1'', name = ''Office lighting'', description = ''d'',
          category = ''lighting'',
          conditions =
            ConditionGroup AND
              [Condition \<lparr>field = ''building_type'', operator = EQUALS,
                          cond_value = PStr ''office'', unit = None\<rparr>,
               ConditionGroup NOT
                 [Condition \<lparr>field = ''building_area'', operator = LESS_THAN,
                             cond_value = PInt 25000, unit = Some ''sqft''\<rparr>]],
          actions = [\<lparr>action_type = ''set_value'', target = ''lighting_power_density'',
                      action_value = PFloat (Finite 1), parameters = [(''basis'', PNone)]\<rparr>],
          priority = 10, rule_metadata = []\<rparr>],
      schema_metadata = [(''source'', PStr ''example'')]\<rparr>"

theorem schema_round_trip_witness: "from_dict (to_dict example_schema) = Inr example_schema"
  using schema_round_trip [of example_schema]
  by (simp add: schema_units_kept_def example_schema_def)

section \<open>Parser\<close>

subsection \<open>Strings\<close>

text \<open>
  Python's whitespace (\<open>str.isspace\<close>, also what \<open>\s\<close> matches) and word characters
  (what \<open>\w\<close> matches: letters, digits and the underscore), among the code points 0 to
  255. \<open>sep in s\<close> is \<^const>\<open>sublist\<close>. \<open>split_once\<close> cuts a
  string at the first occurrence of a separator; \<open>s.split(sep)\<close> is \<open>py_split\<close> and
  \<open>s.split(sep, 1)\<close> is \<open>py_split1\<close>. The source never splits on an empty separator
  (where Python raises).
\<close>

definition is_space :: "char \<Rightarrow> bool" where
  "is_space c = in_ranges [(9, 13), (28, 32), (0x85, 0x85), (0xA0, 0xA0)] c"

definition is_word :: "char \<Rightarrow> bool" where
  "is_word c =
     in_ranges [(48, 57), (65, 90), (95, 95), (97, 122), (0xAA, 0xAA), (0xB2, 0xB3),
                (0xB5, 0xB5), (0xB9, 0xBA), (0xBC, 0xBE), (0xC0, 0xD6), (0xD8, 0xF6),
                (0xF8, 0xFF)] c"

fun split_once :: "string \<Rightarrow> string \<Rightarrow> (string \<times> string) option" where
  "split_once sep [] = (if sep = [] then Some ([], []) else None)"
| "split_once sep (c # cs) =
     (if prefix sep (c # cs) then Some ([], drop (length sep) (c # cs))
      else (case split_once sep cs of None \<Rightarrow> None | Some (a, b) \<Rightarrow> Some (c # a, b)))"

lemma split_once_Some: "split_once sep s = Some (a, b) \<Longrightarrow> s = a @ sep @ b"
proof (induction s arbitrary: a)
  case Nil
  then show ?case by (simp split: if_splits)
next
  case (Cons c cs)
  show ?case
  proof (cases "prefix sep (c # cs)")
    case True
    with Cons.prems have "a = []" "b = drop (length sep) (c # cs)" by simp_all
    with True show ?thesis by (metis append_Nil append_eq_conv_conj prefix_def)
  next
    case False
    with Cons.prems obtain a' where "split_once sep cs = Some (a', b)" "a = c # a'"
      by (auto split: option.splits)
    with Cons.IH show ?thesis by simp
  qed
qed

function py_split :: "string \<Rightarrow> string \<Rightarrow> string list" where
  "py_split sep s =
     (if sep = [] then [s]
      else (case split_once sep s of None \<Rightarrow> [s] | Some (a, b) \<Rightarrow> a # py_split sep b))"
  by pat_completeness auto
termination
proof (relation "measure (\<lambda>(sep, s). length s)", goal_cases)
  case 1
  then show ?case by simp
next
  case (2 sep s x a b)
  then have "s = a @ sep @ b" by (simp add: split_once_Some)
  with 2(1) show ?case by (cases sep) simp_all
qed

declare py_split.simps [simp del]

definition py_split1 :: "string \<Rightarrow> string \<Rightarrow> string list" where
  "py_split1 sep s = (case split_once sep s of None \<Rightarrow> [s] | Some (a, b) \<Rightarrow> [a, b])"

subsection \<open>Regular expressions\<close>

text \<open>
  The part of Python's \<open>re\<close> that the patterns of the parser use: literals, character
  sets and their complements (with \<open>\s\<close> and \<open>\d\<close>), greedy \<open>+\<close> and \<open>*\<close> on a character
  set, greedy \<open>?\<close>, concatenation, ordered alternation, the word boundary \<open>\b\<close> and
  numbered groups. \<open>rx_match\<close> is the backtracking matcher: it tries the alternatives in
  Python's order and passes the position reached (the text seen so far, reversed, the
  text left, and the groups) to the continuation. \<open>re_search\<close> is \<open>re.search\<close>: the
  match at the leftmost position that has one.
\<close>

datatype cclass = CChar char | CRange char char | CSpace | CDigit

fun in_cclass :: "cclass \<Rightarrow> char \<Rightarrow> bool" where
  "in_cclass (CChar d) c = (c = d)"
| "in_cclass (CRange lo hi) c = ((of_char lo :: nat) \<le> of_char c \<and> (of_char c :: nat) \<le> of_char hi)"
| "in_cclass CSpace c = is_space c"
| "in_cclass CDigit c = is_digit c"

datatype cset = Pos "cclass list" | Neg "cclass list"

fun in_cset :: "cset \<Rightarrow> char \<Rightarrow> bool" where
  "in_cset (Pos cs) c = list_ex (\<lambda>k. in_cclass k c) cs"
| "in_cset (Neg cs) c = (\<not> list_ex (\<lambda>k. in_cclass k c) cs)"

datatype regex =
    Eps
  | Lit string
  | One cset
  | Plus cset
  | Star cset
  | Cat regex regex
  | Alt regex regex
  | Opt regex
  | Boundary
  | Group nat regex

type_synonym mstate = "string \<times> string \<times> (nat \<times> string) list"

definition at_boundary :: "string \<Rightarrow> string \<Rightarrow> bool" where
  "at_boundary seen rest =
     ((case seen of [] \<Rightarrow> False | c # cs \<Rightarrow> is_word c) \<noteq>
      (case rest of [] \<Rightarrow> False | c # cs \<Rightarrow> is_word c))"

fun greedy ::
  "cset \<Rightarrow> (mstate \<Rightarrow> mstate option) \<Rightarrow> string \<Rightarrow> string \<Rightarrow> (nat \<times> string) list
     \<Rightarrow> mstate option" where
  "greedy cs k seen [] caps = k (seen, [], caps)"
| "greedy cs k seen (c # rest) caps =
     (if in_cset cs c then
        (case greedy cs k (c # seen) rest caps of
           Some m \<Rightarrow> Some m
         | None \<Rightarrow> k (seen, c # rest, caps))
      else k (seen, c # rest, caps))"

fun rx_match :: "regex \<Rightarrow> (mstate \<Rightarrow> mstate option) \<Rightarrow> mstate \<Rightarrow> mstate option" where
  "rx_match Eps k st = k st"
| "rx_match (Lit s) k (seen, rest, caps) =
     (if prefix s rest then k (rev s @ seen, drop (length s) rest, caps) else None)"
| "rx_match (One cs) k (seen, rest, caps) =
     (case rest of
        [] \<Rightarrow> None
      | c # rest' \<Rightarrow> if in_cset cs c then k (c # seen, rest', caps) else None)"
| "rx_match (Plus cs) k (seen, rest, caps) =
     (case rest of
        [] \<Rightarrow> None
      | c # rest' \<Rightarrow> if in_cset cs c then greedy cs k (c # seen) rest' caps else None)"
| "rx_match (Star cs) k (seen, rest, caps) = greedy cs k seen rest caps"
| "rx_match (Cat a b) k st = rx_match a (rx_match b k) st"
| "rx_match (Alt a b) k st =
     (case rx_match a k st of Some m \<Rightarrow> Some m | None \<Rightarrow> rx_match b k st)"
| "rx_match (Opt a) k st = (case rx_match a k st of Some m \<Rightarrow> Some m | None \<Rightarrow> k st)"
| "rx_match Boundary k (seen, rest, caps) =
     (if at_boundary seen rest then k (seen, rest, caps) else None)"
| "rx_match (Group n a) k (seen, rest, caps) =
     rx_match a
       (\<lambda>(seen', rest', caps').
          k (seen', rest', (n, rev (take (length seen' - length seen) seen')) # caps'))
       (seen, rest, caps)"

fun search_from :: "regex \<Rightarrow> string \<Rightarrow> string \<Rightarrow> mstate option" where
  "search_from r seen [] = rx_match r Some (seen, [], [])"
| "search_from r seen (c # rest) =
     (case rx_match r Some (seen, c # rest, []) of
        Some m \<Rightarrow> Some m
      | None \<Rightarrow> search_from r (c # seen) rest)"

definition re_search :: "regex \<Rightarrow> string \<Rightarrow> mstate option" where
  "re_search r s = search_from r [] s"

text \<open>
  The patterns searched with \<open>re.IGNORECASE\<close> hold no upper-case letter and no letter
  range, so the flag amounts to lowering the text.
\<close>

definition re_search_ignorecase :: "regex \<Rightarrow> string \<Rightarrow> mstate option" where
  "re_search_ignorecase r s = re_search r (lower s)"

definition group :: "mstate \<Rightarrow> nat \<Rightarrow> string" where
  "group m n = (case map_of (snd (snd m)) n of None \<Rightarrow> [] | Some g \<Rightarrow> g)"

text \<open>
  Notation for patterns: \<open>cat\<close> concatenates, \<open>alts\<close> is \<open>|\<close>, \<open>word s\<close> is \<open>\bs\b\<close>,
  \<open>spaces1\<close> is \<open>\s+\<close>, \<open>spaces0\<close> is \<open>\s*\<close>, \<open>digits1\<close> is \<open>\d+\<close>.
\<close>

fun cat :: "regex list \<Rightarrow> regex" where
  "cat [] = Eps"
| "cat [r] = r"
| "cat (r # rs) = Cat r (cat rs)"

fun alts :: "regex list \<Rightarrow> regex" where
  "alts [] = Eps"
| "alts [r] = r"
| "alts (r # rs) = Alt r (alts rs)"

definition word :: "string \<Rightarrow> regex" where
  "word s = cat [Boundary, Lit s, Boundary]"

definition spaces1 :: regex where "spaces1 = Plus (Pos [CSpace])"
definition spaces0 :: regex where "spaces0 = Star (Pos [CSpace])"
definition digits1 :: regex where "digits1 = Plus (Pos [CDigit])"

subsection \<open>The pattern tables\<close>

text \<open>
  The three tables of \<open>RuleParser\<close>, in the order of the source (a Python dictionary
  iterates in insertion order), and the five patterns written inline in its methods.
\<close>

definition OPERATOR_PATTERNS :: "(regex \<times> ComparisonOperator) list" where
  "OPERATOR_PATTERNS =
     [(alts [cat [Boundary, Lit ''equal'', Opt (Lit ''s''), Boundary], word ''is'', word ''=''],
       EQUALS),
      (alts [cat [Boundary, Lit ''not equal'', Opt (Group 1 (Lit ''s'')), Boundary],
             word ''is not'', word ''!=''],
       NOT_EQUALS),
      (alts [word ''greater than or equal'', word ''>='', word ''at least''],
       GREATER_THAN_OR_EQUAL),
      (alts [word ''less than or equal'', word ''<='', word ''at most''],
       LESS_THAN_OR_EQUAL),
      (alts [word ''greater than'', word ''>'', word ''more than'', word ''exceeds''],
       GREATER_THAN),
      (alts [word ''less than'', word ''<'', word ''below''],
       LESS_THAN)]"

definition PROPERTY_PATTERNS :: "(regex \<times> string) list" where
  "PROPERTY_PATTERNS =
     [(cat [Lit ''building'', spaces1, Lit ''area''], ''building_area''),
      (cat [Lit ''floor'', spaces1, Lit ''area''], ''floor_area''),
      (cat [Lit ''climate'', spaces1, Lit ''zone''], ''climate_zone''),
      (cat [Lit ''building'', spaces1, Lit ''type''], ''building_type''),
      (cat [Lit ''number'', spaces1, Lit ''of'', spaces1, Lit ''stories''], ''num_stories''),
      (cat [Lit ''lighting'', spaces1, Lit ''power'', spaces1, Lit ''density''],
       ''lighting_power_density''),
      (cat [Lit ''window'', spaces1, Lit ''to'', spaces1, Lit ''wall'', spaces1, Lit ''ratio''],
       ''window_to_wall_ratio''),
      (cat [Lit ''u'', Opt (Lit ''-''), Lit ''factor''], ''u_factor''),
      (cat [Lit ''r'', Opt (Lit ''-''), Lit ''value''], ''r_value''),
      (Lit ''shgc'', ''shgc''),
      (Lit ''cop'', ''cop''),
      (Lit ''efficiency'', ''efficiency'')]"

definition UNIT_PATTERNS :: "(regex \<times> string) list" where
  "UNIT_PATTERNS =
     [(alts [cat [Lit ''sq'', Opt (Lit ''.''), spaces0, Lit ''ft'', Opt (Lit ''.'')],
             cat [Lit ''square'', spaces1, Lit ''fee'', Opt (Lit ''t'')]],
       ''sqft''),
      (alts [cat [Lit ''sq'', Opt (Lit ''.''), spaces0, Lit ''m'', Opt (Lit ''.'')],
             cat [Lit ''square'', spaces1, Lit ''meter'', Opt (Lit ''s'')]],
       ''sqm''),
      (alts [cat [Lit ''w/sq'', Opt (Lit ''.''), spaces0, Lit ''ft'', Opt (Lit ''.'')],
             cat [Lit ''watt'', Opt (Lit ''s''), spaces1, Lit ''per'', spaces1, Lit ''square'',
                  spaces1, Lit ''foot'']],
       ''W/sqft''),
      (alts [cat [Lit ''w/sq'', Opt (Lit ''.''), spaces0, Lit ''m'', Opt (Lit ''.'')],
             cat [Lit ''watt'', Opt (Lit ''s''), spaces1, Lit ''per'', spaces1, Lit ''square'',
                  spaces1, Lit ''meter'']],
       ''W/sqm''),
      (alts [cat [Opt (Lit [CHR 0xB0]), Lit ''f'', Boundary], Lit ''fahrenheit''], ''degF''),
      (alts [cat [Opt (Lit [CHR 0xB0]), Lit ''c'', Boundary], Lit ''celsius''], ''degC''),
      (Lit ''btu'', ''BTU''),
      (alts [Lit ''percent'', Lit ''%''], ''percent'')]"

definition NUMBER :: regex where
  "NUMBER = cat [Boundary, Group 1 (cat [digits1, Opt (cat [Lit ''.'', digits1])]), Boundary]"

definition QUOTED :: regex where
  "QUOTED =
     cat [One (Pos [CChar (CHR 0x22), CChar (CHR 0x27)]),
          Group 1 (Plus (Neg [CChar (CHR 0x22), CChar (CHR 0x27)])),
          One (Pos [CChar (CHR 0x22), CChar (CHR 0x27)])]"

definition ZONE :: regex where
  "ZONE =
     cat [Lit ''zone'', spaces1,
          Group 1 (cat [digits1, Opt (One (Pos [CRange (CHR ''a'') (CHR ''z'')]))])]"

definition METHOD :: regex where
  "METHOD =
     cat [Group 1 (Alt (Lit ''method'') (Lit ''procedure'')), spaces1,
          Group 2 (Plus (Pos [CRange (CHR ''a'') (CHR ''z''), CRange (CHR ''0'') (CHR ''9''),
                              CChar (CHR ''_''), CChar (CHR ''-'')]))]"

definition TABLE :: regex where
  "TABLE =
     cat [Lit ''table'', spaces1,
          Group 1 (Plus (Pos [CRange (CHR ''a'') (CHR ''z''), CRange (CHR ''0'') (CHR ''9''),
                              CChar (CHR ''_''), CChar (CHR ''.''), CChar (CHR ''-'')]))]"

text \<open>
  \<open>for pattern, x in TABLE.items(): if re.search(pattern, text_lower, re.IGNORECASE): ...;
  break\<close>: the entry of the first pattern that matches.
\<close>

fun first_match :: "(regex \<times> 'a) list \<Rightarrow> string \<Rightarrow> 'a option" where
  "first_match [] s = None"
| "first_match ((pattern, x) # table) s =
     (if re_search_ignorecase pattern s \<noteq> None then Some x else first_match table s)"

subsection \<open>Conditions and actions\<close>

text \<open>
  \<open>float(value_str) if '.' in value_str else int(value_str)\<close>, on the digits that the
  number pattern captured.
\<close>

definition number_value :: "string \<Rightarrow> py_error + pyval" where
  "number_value value_str =
     (if CHR ''.'' \<in> set value_str then
        (case float_of_string value_str of
           None \<Rightarrow> Inl ValueError
         | Some f \<Rightarrow> Inr (PFloat f))
      else Inr (PInt (int_of_digits value_str)))"

definition parse_single_condition :: "string \<Rightarrow> py_error + condition" where
  "parse_single_condition text =
     (let text_lower = lower text;
          fld = (case first_match PROPERTY_PATTERNS text_lower of
                   None \<Rightarrow> ''property'' | Some prop_name \<Rightarrow> prop_name);
          oper = (case first_match OPERATOR_PATTERNS text_lower of
                    None \<Rightarrow> EQUALS | Some op \<Rightarrow> op);
          val =
            (case re_search NUMBER text_lower of
               Some number_match \<Rightarrow> number_value (group number_match 1)
             | None \<Rightarrow>
                 (case re_search QUOTED text of
                    Some quoted_match \<Rightarrow> Inr (PStr (group quoted_match 1))
                  | None \<Rightarrow>
                      if sublist ''office'' text_lower then Inr (PStr ''office'')
                      else if sublist ''retail'' text_lower then Inr (PStr ''retail'')
                      else if sublist ''residential'' text_lower then Inr (PStr ''residential'')
                      else (case re_search ZONE text_lower of
                              Some zone_match \<Rightarrow> Inr (PStr (group zone_match 1))
                            | None \<Rightarrow> Inr (PStr ''''))));
          un = first_match UNIT_PATTERNS text_lower
      in and_then val (\<lambda>v. Inr \<lparr>field = fld, operator = oper, cond_value = v, unit = un\<rparr>))"

text \<open>
  \<open>RuleParser._parse_condition_group\<close> (named apart from the method of the same name in
  \<open>schema.py\<close>).
\<close>

definition parse_condition_group_text :: "string \<Rightarrow> py_error + condition_node" where
  "parse_condition_group_text text =
     (let text_lower = lower text;
          lop = (if sublist '' or '' text_lower then OR else AND);
          separator = (if lop = AND then '' and '' else '' or '');
          parts = py_split separator text_lower
      in and_then (sequence_results (map parse_single_condition parts))
           (\<lambda>conds. Inr (ConditionGroup lop (map Condition conds))))"

text \<open>
  \<open>_extract_conditions\<close>. The loop over the separators takes the first separator of the
  list that occurs in the lowered text; \<open>condition_text\<close> is the value of the variable of
  that name after the loop.
\<close>

fun first_separator :: "string list \<Rightarrow> string \<Rightarrow> string option" where
  "first_separator [] text_lower = None"
| "first_separator (separator # others) text_lower =
     (if sublist separator text_lower then Some separator else first_separator others text_lower)"

definition condition_text :: "string \<Rightarrow> string" where
  "condition_text text =
     (let text_lower = lower text
      in case first_separator ['' then '', '' set '', '' apply '', '' use ''] text_lower of
           Some separator \<Rightarrow> hd (py_split separator text_lower)
         | None \<Rightarrow> text)"

definition extract_conditions :: "string \<Rightarrow> py_error + condition_node" where
  "extract_conditions text =
     (let text_lower = lower text;
          has_and = (re_search (word ''and'') text_lower \<noteq> None);
          has_or = (re_search (word ''or'') text_lower \<noteq> None)
      in if has_and \<or> has_or then parse_condition_group_text (condition_text text)
         else and_then (parse_single_condition (condition_text text)) (\<lambda>c. Inr (Condition c)))"

text \<open>
  \<open>_extract_actions\<close>. An action is extracted only when \<open>' then '\<close> or \<open>' set '\<close>
  occurs; otherwise the list of actions is the single default action. \<open>action_text\<close> is
  the value of the variable of that name after the loop over the two separators.
\<close>

definition fallback_action :: action where
  "fallback_action =
     \<lparr>action_type = ''evaluate'', target = ''compliance'', action_value = PStr ''check'',
      parameters = []\<rparr>"

definition action_text :: "string \<Rightarrow> string" where
  "action_text text =
     (let text_lower = lower text
      in case first_separator ['' then '', '' set ''] text_lower of
           Some separator \<Rightarrow> py_split1 separator text_lower ! 1
         | None \<Rightarrow> text_lower)"

definition extract_actions :: "string \<Rightarrow> py_error + action list" where
  "extract_actions text =
     (let text_lower = lower text
      in if sublist '' then '' text_lower \<or> sublist '' set '' text_lower then
           (let action_text = action_text text;
                tgt = (case first_match PROPERTY_PATTERNS action_text of
                         None \<Rightarrow> ''property'' | Some prop_name \<Rightarrow> prop_name);
                typed_value =
                  (case re_search NUMBER action_text of
                     Some number_match \<Rightarrow>
                       and_then (number_value (group number_match 1))
                         (\<lambda>v. Inr (''set_value'', v))
                   | None \<Rightarrow>
                       if sublist ''method'' action_text \<or> sublist ''procedure'' action_text then
                         Inr (''apply_method'',
                              case re_search METHOD action_text of
                                Some method_match \<Rightarrow> PStr (group method_match 2)
                              | None \<Rightarrow> PStr '''')
                       else if sublist ''table'' action_text then
                         Inr (''reference_table'',
                              case re_search TABLE action_text of
                                Some table_match \<Rightarrow> PStr (group table_match 1)
                              | None \<Rightarrow> PStr '''')
                       else Inr (''set_value'', PStr ''''))
            in and_then typed_value
                 (\<lambda>(ty, v). Inr [\<lparr>action_type = ty, target = tgt, action_value = v,
                                  parameters = []\<rparr>]))
         else Inr [fallback_action])"

subsection \<open>Rules from text\<close>

text \<open>
  \<open>text.split()\<close>, \<open>' '.join\<close>, the name of a rule, the identifier
  \<open>f"rule_{n:03d}"\<close>, and \<open>parse_rule_text\<close>, which takes the counter of the parser and
  returns it with the result (the counter is advanced before anything can raise).
\<close>

fun words_from :: "string \<Rightarrow> string \<Rightarrow> string list" where
  "words_from cur [] = (if cur = [] then [] else [rev cur])"
| "words_from cur (c # cs) =
     (if is_space c then (if cur = [] then words_from [] cs else rev cur # words_from [] cs)
      else words_from (c # cur) cs)"

definition py_words :: "string \<Rightarrow> string list" where
  "py_words s = words_from [] s"

fun join :: "string \<Rightarrow> string list \<Rightarrow> string" where
  "join sep [] = []"
| "join sep [x] = x"
| "join sep (x # y # ys) = x @ sep @ join sep (y # ys)"

definition generate_rule_name :: "string \<Rightarrow> string" where
  "generate_rule_name text =
     (let words = take 6 (py_words text); nm = join '' '' words
      in if 6 < length (py_words text) then nm @ ''...'' else nm)"

fun decimal :: "nat \<Rightarrow> string" where
  "decimal n =
     (if n < 10 then [char_of (48 + n)] else decimal (n div 10) @ [char_of (48 + n mod 10)])"

declare decimal.simps [simp del]

definition format_rule_id :: "nat \<Rightarrow> string" where
  "format_rule_id n =
     (let d = decimal n in ''rule_'' @ replicate (3 - length d) (CHR ''0'') @ d)"

definition parse_rule_text ::
  "string \<Rightarrow> string option \<Rightarrow> string \<Rightarrow> nat \<Rightarrow> (py_error + rule) \<times> nat" where
  "parse_rule_text text rule_id_arg category_arg rule_counter =
     (let (rid, counter) =
            (case rule_id_arg of
               None \<Rightarrow> (format_rule_id (rule_counter + 1), rule_counter + 1)
             | Some given \<Rightarrow> (given, rule_counter))
      in (and_then (extract_conditions text) (\<lambda>conds.
          and_then (extract_actions text) (\<lambda>acts.
            Inr \<lparr>rule_id = rid, name = generate_rule_name text,
                 description = strip_with is_space text, category = category_arg,
                 conditions = conds, actions = acts, priority = 0, rule_metadata = []\<rparr>)),
          counter))"


subsection \<open>The split into condition and action segment\<close>

text \<open>
  \<open>splits_at seg sep s\<close>: \<open>seg\<close> is the part of \<open>s\<close> before the first occurrence of
  \<open>sep\<close>.
\<close>

definition splits_at :: "string \<Rightarrow> string \<Rightarrow> string \<Rightarrow> bool" where
  "splits_at seg sep s = (prefix (seg @ sep) s \<and> \<not> sublist sep (seg @ butlast sep))"

lemma split_once_None: "sep \<noteq> [] \<Longrightarrow> split_once sep s = None \<longleftrightarrow> \<not> sublist sep s"
proof (induction s)
  case Nil
  then show ?case by simp
next
  case (Cons c cs)
  then show ?case by (auto simp: sublist_Cons_right split: option.splits)
qed

lemma split_once_first:
  assumes "sep \<noteq> []"
  shows "split_once sep s = Some (a, b) \<Longrightarrow> \<not> sublist sep (a @ butlast sep)"
proof (induction s arbitrary: a)
  case Nil
  with assms show ?case by simp
next
  case (Cons c cs)
  show ?case
  proof (cases "prefix sep (c # cs)")
    case True
    with Cons.prems have "a = []" by simp
    moreover have "\<not> sublist sep (butlast sep)"
    proof
      assume "sublist sep (butlast sep)"
      then have "length sep \<le> length (butlast sep)" by (rule sublist_length_le)
      then have "length sep = 0" by (cases "length sep") simp_all
      with assms show False by simp
    qed
    ultimately show ?thesis by simp
  next
    case False
    with Cons.prems obtain a' where a': "split_once sep cs = Some (a', b)" "a = c # a'"
      by (auto split: option.splits)
    from a'(1) have cs: "cs = a' @ sep @ b" by (rule split_once_Some)
    have "\<not> prefix sep (c # a' @ butlast sep)"
    proof
      assume p: "prefix sep (c # a' @ butlast sep)"
      have "prefix (c # a' @ butlast sep) (c # cs)"
        unfolding cs using assms
        by (metis Cons_prefix_Cons append_butlast_last_id prefixI same_prefix_prefix append.assoc)
      with p have "prefix sep (c # cs)" by (rule prefix_order.trans)
      with False show False ..
    qed
    moreover from Cons.IH [OF a'(1)] have "\<not> sublist sep (a' @ butlast sep)" .
    ultimately show ?thesis using a'(2) by (simp add: sublist_Cons_right)
  qed
qed

lemma hd_py_split:
  assumes "sep \<noteq> []" and "sublist sep s"
  shows "splits_at (hd (py_split sep s)) sep s"
proof -
  from assms obtain a b where ab: "split_once sep s = Some (a, b)"
    using split_once_None [of sep s] by (cases "split_once sep s") auto
  then have hd: "hd (py_split sep s) = a" using assms(1) by (simp add: py_split.simps)
  from ab have "s = a @ sep @ b" by (rule split_once_Some)
  then have "prefix (a @ sep) s" by (metis append.assoc prefixI)
  with hd split_once_first [OF assms(1) ab] show ?thesis by (simp add: splits_at_def)
qed

lemma split_parts:
  assumes "sep \<noteq> []" and "sublist sep s"
  shows "s = hd (py_split sep s) @ sep @ (py_split1 sep s ! 1)"
proof -
  from assms obtain a b where ab: "split_once sep s = Some (a, b)"
    using split_once_None [of sep s] by (cases "split_once sep s") auto
  then have "hd (py_split sep s) = a" "py_split1 sep s ! 1 = b"
    using assms(1) by (simp_all add: py_split.simps py_split1_def)
  with split_once_Some [OF ab] show ?thesis by simp
qed

text \<open>
  C4, as the code has it. The condition segment is the part of the lowered text before
  the first occurrence of one separator, chosen by a fixed preference: \<open>' then '\<close> when
  it occurs anywhere in the text, else \<open>' set '\<close>, else \<open>' apply '\<close>, else \<open>' use '\<close>.
  When the separator chosen is \<open>' then '\<close> or \<open>' set '\<close>, the action segment is the part
  after that same occurrence: the lowered text is the condition segment, the separator
  and the action segment. When none of the four occurs, the condition segment is the
  whole text.
\<close>

theorem segments_fixed_preference:
  "(sublist '' then '' (lower text) \<longrightarrow>
      splits_at (condition_text text) '' then '' (lower text) \<and>
      lower text = condition_text text @ '' then '' @ action_text text) \<and>
   (\<not> sublist '' then '' (lower text) \<and> sublist '' set '' (lower text) \<longrightarrow>
      splits_at (condition_text text) '' set '' (lower text) \<and>
      lower text = condition_text text @ '' set '' @ action_text text) \<and>
   (\<not> sublist '' then '' (lower text) \<and> \<not> sublist '' set '' (lower text) \<and>
    sublist '' apply '' (lower text) \<longrightarrow>
      splits_at (condition_text text) '' apply '' (lower text)) \<and>
   (\<not> sublist '' then '' (lower text) \<and> \<not> sublist '' set '' (lower text) \<and>
    \<not> sublist '' apply '' (lower text) \<and> sublist '' use '' (lower text) \<longrightarrow>
      splits_at (condition_text text) '' use '' (lower text)) \<and>
   (\<not> sublist '' then '' (lower text) \<and> \<not> sublist '' set '' (lower text) \<and>
    \<not> sublist '' apply '' (lower text) \<and> \<not> sublist '' use '' (lower text) \<longrightarrow>
      condition_text text = text)"
proof -
  have "splits_at (condition_text text) '' then '' (lower text) \<and>
        lower text = condition_text text @ '' then '' @ action_text text"
    if "sublist '' then '' (lower text)"
    using that split_parts [of "'' then ''" "lower text"]
    by (simp add: condition_text_def action_text_def Let_def hd_py_split)
  moreover have "splits_at (condition_text text) '' set '' (lower text) \<and>
        lower text = condition_text text @ '' set '' @ action_text text"
    if "\<not> sublist '' then '' (lower text)" "sublist '' set '' (lower text)"
    using that split_parts [of "'' set ''" "lower text"]
    by (simp add: condition_text_def action_text_def Let_def hd_py_split)
  moreover have "splits_at (condition_text text) '' apply '' (lower text)"
    if "\<not> sublist '' then '' (lower text)" "\<not> sublist '' set '' (lower text)"
      "sublist '' apply '' (lower text)"
    using that by (simp add: condition_text_def Let_def hd_py_split)
  moreover have "splits_at (condition_text text) '' use '' (lower text)"
    if "\<not> sublist '' then '' (lower text)" "\<not> sublist '' set '' (lower text)"
      "\<not> sublist '' apply '' (lower text)" "sublist '' use '' (lower text)"
    using that by (simp add: condition_text_def Let_def hd_py_split)
  moreover have "condition_text text = text"
    if "\<not> sublist '' then '' (lower text)" "\<not> sublist '' set '' (lower text)"
      "\<not> sublist '' apply '' (lower text)" "\<not> sublist '' use '' (lower text)"
    using that by (simp add: condition_text_def Let_def)
  ultimately show ?thesis by blast
qed

text \<open>
  C4 as stated: the segment before the separator that occurs earliest in the text,
  whichever token it is.
\<close>

definition earliest_segment :: "string \<Rightarrow> string" where
  "earliest_segment text =
     (let text_lower = lower text;
          found = List.map_filter (\<lambda>sep. map_option fst (split_once sep text_lower))
                    ['' then '', '' set '', '' apply '', '' use '']
      in if found = [] then text else arg_min_list length found)"

text \<open>
  C4, as stated, fails: in \<open>if office set value 5 then x\<close> the token \<open>set\<close> comes first,
  but the code splits at \<open>then\<close>; and in \<open>if office then\<close> the token \<open>then\<close> occurs, but
  without a space after it, and the code does not split.
\<close>

theorem condition_text_not_earliest:
  "condition_text ''if office set value 5 then x'' = ''if office set value 5'' \<and>
   earliest_segment ''if office set value 5 then x'' = ''if office'' \<and>
   ''then'' \<in> set (py_words (lower ''if office then'')) \<and>
   condition_text ''if office then'' = ''if office then''"
  by code_simp

theorem segments_fixed_preference_witness:
  "sublist '' then '' (lower ''If office set value 5 then x'') \<and>
   splits_at (condition_text ''If office set value 5 then x'') '' then ''
     (lower ''If office set value 5 then x'') \<and>
   lower ''If office set value 5 then x'' =
     condition_text ''If office set value 5 then x'' @ '' then '' @
     action_text ''If office set value 5 then x'' \<and>
   \<not> sublist '' then '' (lower ''If office set value to 5'') \<and>
   sublist '' set '' (lower ''If office set value to 5'') \<and>
   splits_at (condition_text ''If office set value to 5'') '' set ''
     (lower ''If office set value to 5'') \<and>
   lower ''If office set value to 5'' =
     condition_text ''If office set value to 5'' @ '' set '' @
     action_text ''If office set value to 5''"
proof -
  have h1: "sublist '' then '' (lower ''If office set value 5 then x'')" by code_simp
  have h2: "\<not> sublist '' then '' (lower ''If office set value to 5'')" by code_simp
  have h3: "sublist '' set '' (lower ''If office set value to 5'')" by code_simp
  show ?thesis
    using h1 h2 h3 segments_fixed_preference [of "''If office set value 5 then x''"]
      segments_fixed_preference [of "''If office set value to 5''"]
    by blast
qed

text \<open>
  The two segments of the texts of the witness.
\<close>

lemma segments_example:
  "condition_text ''If office set value 5 then x'' = ''if office set value 5'' \<and>
   action_text ''If office set value 5 then x'' = ''x'' \<and>
   condition_text ''If office set value to 5'' = ''if office'' \<and>
   action_text ''If office set value to 5'' = ''value to 5''"
  by code_simp

subsection \<open>Operator detection\<close>

text \<open>
  C1. The operator table is searched in its order, and its first entry (\<open>EQUALS\<close>) has
  the alternative \<open>\bis\b\<close>. In the example of the claim, \<open>is greater than\<close> therefore
  gives \<open>EQUALS\<close>, not \<open>GREATER_THAN\<close>: the shorter phrasing is tested before the longer
  ones that contain it.
\<close>

theorem parse_rule_text_is_greater_than:
  "parse_rule_text ''If building area is greater than 10000 sqft then set value to 1.5''
     None ''general'' 0 =
   (Inr \<lparr>rule_id = ''rule_001'', name = ''If building area is greater than...'',
         description = ''If building area is greater than 10000 sqft then set value to 1.5'',
         category = ''general'',
         conditions = Condition \<lparr>field = ''building_area'', operator = EQUALS,
                                 cond_value = PInt 10000, unit = Some ''sqft''\<rparr>,
         actions = [\<lparr>action_type = ''set_value'', target = ''property'',
                     action_value = PFloat (Finite (3 / 2)), parameters = []\<rparr>],
         priority = 0, rule_metadata = []\<rparr>, 1)"
  by code_simp

subsection \<open>Connectives\<close>

text \<open>
  C5. The connectives are searched in the whole text, before the split. A text whose
  condition segment has neither \<open>and\<close> nor \<open>or\<close>, and whose action segment has \<open>and\<close>,
  gives a \<open>ConditionGroup\<close> with one member instead of a single \<open>Condition\<close>.
\<close>

theorem connective_in_action_segment:
  "extract_conditions ''If building type is office then set lighting and cooling to 1'' =
     Inr (ConditionGroup AND
            [Condition \<lparr>field = ''building_type'', operator = EQUALS,
                        cond_value = PStr ''office'', unit = Some ''degF''\<rparr>]) \<and>
   condition_text ''If building type is office then set lighting and cooling to 1'' =
     ''if building type is office'' \<and>
   re_search (word ''and'') ''if building type is office'' = None \<and>
   re_search (word ''or'') ''if building type is office'' = None"
  by code_simp

subsection \<open>The default action\<close>

text \<open>
  C6. \<open>_extract_conditions\<close> splits at \<open>' apply '\<close> and \<open>' use '\<close> too, but
  \<open>_extract_actions\<close> looks for \<open>' then '\<close> and \<open>' set '\<close> only: a text whose only
  separator is \<open>apply\<close> is split, and still gets the default action.
\<close>

theorem apply_separator_gives_fallback:
  "extract_actions ''If building type is office apply method abc'' = Inr [fallback_action] \<and>
   condition_text ''If building type is office apply method abc'' =
     ''if building type is office''"
  by code_simp

text \<open>
  The default action is what every text without \<open>' then '\<close> and \<open>' set '\<close> gets.
\<close>

lemma extract_actions_fallback:
  "\<not> sublist '' then '' (lower text) \<Longrightarrow> \<not> sublist '' set '' (lower text) \<Longrightarrow>
     extract_actions text = Inr [fallback_action]"
  by (simp add: extract_actions_def)

end
